theory Spec2Isabelle
  imports Main
begin

section \<open>Python values, objects and the node store\<close>

text \<open>
  The optimizer nodes of \<^verbatim>\<open>nuitka/nodes/ExceptionNodes.py\<close> and
  \<^verbatim>\<open>nuitka/nodes/ExecEvalNodes.py\<close> are mutable Python objects that refer to each
  other (children, parent back-reference).  They are modelled as objects in a store:
  an object has the \<^verbatim>\<open>kind\<close> of its class and a dictionary of instance attributes,
  a reference is the index of the object in the store, and a new object is appended to
  the store.
\<close>

type_synonym addr = nat

datatype val = VNone | VBool bool | VStr string | VRef addr | VList "val list"

datatype error = AssertionError | AttributeError string | TypeError

record obj =
  kind :: string
  attrs :: "string \<rightharpoonup> val"

text \<open>
  Modelled from the spec: the class \<^verbatim>\<open>TraceCollection\<close> is not part of the sources at
  hand.  The spec describes it as pass-scoped mutable state made of the recorded
  exception exits, a mapping from a locals scope to its accumulated variable records,
  and the currently accumulated knowledge about variables.
\<close>

record trace_collection =
  exception_exits :: "string list"
  locals_records :: "val \<Rightarrow> val list"
  knowledge :: "(val \<times> val) list"

record world =
  heap :: "obj list"
  tc :: trace_collection

type_synonym change_result = "val \<times> string option \<times> string option"

definition lookup :: "world \<Rightarrow> addr \<Rightarrow> obj option" where
  "lookup w a = (if a < length (heap w) then Some (heap w ! a) else None)"

definition andThen :: "error + 'a \<Rightarrow> ('a \<Rightarrow> error + 'b) \<Rightarrow> error + 'b" where
  "andThen m f = (case m of Inl e \<Rightarrow> Inl e | Inr x \<Rightarrow> f x)"

text \<open>Attribute access \<^verbatim>\<open>v.n\<close>: only an object that has the attribute answers.\<close>

definition getattr :: "val \<Rightarrow> string \<Rightarrow> world \<Rightarrow> error + val" where
  "getattr v n w =
     (case v of
        VRef a \<Rightarrow>
          (case lookup w a of
             Some ob \<Rightarrow> (case attrs ob n of Some x \<Rightarrow> Inr x | None \<Rightarrow> Inl (AttributeError n))
           | None \<Rightarrow> Inl (AttributeError n))
      | _ \<Rightarrow> Inl (AttributeError n))"

text \<open>Attribute assignment \<^verbatim>\<open>v.n = x\<close>.\<close>

definition setattr :: "val \<Rightarrow> string \<Rightarrow> val \<Rightarrow> world \<Rightarrow> error + world" where
  "setattr v n x w =
     (case v of
        VRef a \<Rightarrow>
          (case lookup w a of
             Some ob \<Rightarrow> Inr (w\<lparr>heap := (heap w)[a := ob\<lparr>attrs := (attrs ob)(n \<mapsto> x)\<rparr>]\<rparr>)
           | None \<Rightarrow> Inl (AttributeError n))
      | _ \<Rightarrow> Inl (AttributeError n))"

text \<open>Attribute deletion \<^verbatim>\<open>del v.n\<close>: fails when the attribute is not there.\<close>

definition delattr :: "val \<Rightarrow> string \<Rightarrow> world \<Rightarrow> error + world" where
  "delattr v n w =
     (case v of
        VRef a \<Rightarrow>
          (case lookup w a of
             Some ob \<Rightarrow>
               (case attrs ob n of
                  Some x \<Rightarrow> Inr (w\<lparr>heap := (heap w)[a := ob\<lparr>attrs := (attrs ob)(n := None)\<rparr>]\<rparr>)
                | None \<Rightarrow> Inl (AttributeError n))
           | None \<Rightarrow> Inl (AttributeError n))
      | _ \<Rightarrow> Inl (AttributeError n))"

text \<open>Object creation: a fresh instance without attributes, before \<^verbatim>\<open>__init__\<close> runs.\<close>

definition new_object :: "string \<Rightarrow> world \<Rightarrow> addr \<times> world" where
  "new_object k w =
     (length (heap w), w\<lparr>heap := heap w @ [\<lparr>kind = k, attrs = Map.empty\<rparr>]\<rparr>)"

text \<open>Python truth value of an object, as tested by \<^verbatim>\<open>if x\<close> and \<^verbatim>\<open>not x\<close>.\<close>

fun truthy :: "val \<Rightarrow> bool" where
  "truthy VNone = False"
| "truthy (VBool b) = b"
| "truthy (VStr s) = (s \<noteq> [])"
| "truthy (VRef a) = True"
| "truthy (VList xs) = (xs \<noteq> [])"

definition BaseException :: string where
  "BaseException = ''BaseException''"

section \<open>The trace collection\<close>

text \<open>
  Modelled from the spec: \<^verbatim>\<open>TraceCollection.onExceptionRaiseExit\<close> (not in the sources at
  hand) records that control may leave the current statement sequence by raising the
  given exception class.
\<close>

definition onExceptionRaiseExit :: "string \<Rightarrow> world \<Rightarrow> world" where
  "onExceptionRaiseExit c w = w\<lparr>tc := (tc w)\<lparr>exception_exits := exception_exits (tc w) @ [c]\<rparr>\<rparr>"

text \<open>
  Modelled from the spec: \<^verbatim>\<open>TraceCollection.removeAllKnowledge\<close> (not in the sources at
  hand) discards every accumulated variable-value, type and constantness fact.
\<close>

definition removeAllKnowledge :: "world \<Rightarrow> world" where
  "removeAllKnowledge w = w\<lparr>tc := (tc w)\<lparr>knowledge := []\<rparr>\<rparr>"

section \<open>Collaborators outside the two modules\<close>

text \<open>
  The node classes call into code that is not part of the sources at hand: the generic
  computation of a child expression behind \<^verbatim>\<open>TraceCollection.onExpression\<close>, the
  query \<^verbatim>\<open>TraceCollection.onLocalsUsage\<close> (by the spec it returns the accumulated
  records of a dynamic-locals scope; what it answers is a function of the state of the
  trace collection and of the scope), the
  methods \<^verbatim>\<open>willRaiseAnyException\<close>, \<^verbatim>\<open>mayRaiseException\<close> and \<^verbatim>\<open>getStrValue\<close> of
  arbitrary child expressions, the helpers of \<^verbatim>\<open>NodeMakingHelpers\<close>, and methods of the
  node base classes.  They are parameters of the model: the general theorems below hold
  for all of them, and the theorems about concrete trees use the instance given later.
\<close>

record collaborators =
  computeExpressionRaw :: "val \<Rightarrow> world \<Rightarrow> error + val \<times> world"
  willRaiseAnyException :: "world \<Rightarrow> val \<Rightarrow> bool"
  mayRaiseException :: "world \<Rightarrow> val \<Rightarrow> string \<Rightarrow> bool"
  getStrValue :: "world \<Rightarrow> val \<Rightarrow> val"
  makeStatementOnlyNodesFromExpressions :: "val list \<Rightarrow> world \<Rightarrow> error + val \<times> world"
  makeStatementExpressionOnlyReplacementNode :: "val \<Rightarrow> val \<Rightarrow> world \<Rightarrow> error + val \<times> world"
  computeStatementSubExpressions :: "addr \<Rightarrow> world \<Rightarrow> error + change_result \<times> world"
  getParentVariableProvider :: "world \<Rightarrow> addr \<Rightarrow> val"
  isCompiledPythonModule :: "world \<Rightarrow> val \<Rightarrow> bool"
  onLocalsUsage :: "trace_collection \<Rightarrow> val \<Rightarrow> val"

text \<open>
  Modelled from the spec: \<^verbatim>\<open>TraceCollection.onExpression(expr, allow_none)\<close> computes the
  expression in place and returns the possibly replaced node; when \<^verbatim>\<open>allow_none\<close> is set
  and the expression is absent, it returns absent without side effects.
\<close>

definition onExpression :: "collaborators \<Rightarrow> val \<Rightarrow> bool \<Rightarrow> world \<Rightarrow> error + val \<times> world" where
  "onExpression env expression allow_none w =
     (if expression = VNone \<and> allow_none then Inr (VNone, w)
      else computeExpressionRaw env expression w)"

section \<open>Constructors of the node base classes\<close>

text \<open>
  Modelled from the spec: the constructors of the node base classes and of the
  children-having mixins (\<^verbatim>\<open>NodeBases\<close>, \<^verbatim>\<open>ExpressionBases\<close>,
  \<^verbatim>\<open>ChildrenHavingMixins\<close>; not in the sources at hand).  By the spec a node has a kind,
  named children in evaluation order, a single parent back-reference and a source
  location, and a node that is put under a new parent points back to that parent.  So
  the base constructor starts the node without parent, stores the source reference,
  and stores every child under \<^verbatim>\<open>subnode_<name>\<close>, after the checker registered for that
  name has been applied; the node becomes the parent of every child that is present.
\<close>

fun set_parents :: "val list \<Rightarrow> val \<Rightarrow> world \<Rightarrow> error + world" where
  "set_parents [] parent w = Inr w"
| "set_parents (x # xs) parent w =
     andThen (setattr x ''parent'' parent w) (set_parents xs parent)"

definition set_child ::
  "(string \<rightharpoonup> (world \<Rightarrow> val \<Rightarrow> val)) \<Rightarrow> val \<Rightarrow> string \<Rightarrow> val \<Rightarrow> world \<Rightarrow> error + world" where
  "set_child checkers self name value0 w =
     (let value = (case checkers name of Some check \<Rightarrow> check w value0 | None \<Rightarrow> value0)
      in andThen
           (case value of
              VNone \<Rightarrow> Inr w
            | VList xs \<Rightarrow> set_parents xs self w
            | _ \<Rightarrow> setattr value ''parent'' self w)
           (setattr self (''subnode_'' @ name) value))"

fun set_children ::
  "(string \<rightharpoonup> (world \<Rightarrow> val \<Rightarrow> val)) \<Rightarrow> val \<Rightarrow> (string \<times> val) list \<Rightarrow> world \<Rightarrow> error + world" where
  "set_children checkers self [] w = Inr w"
| "set_children checkers self ((name, value) # values) w =
     andThen (set_child checkers self name value w) (set_children checkers self values)"

definition NodeBase_init :: "val \<Rightarrow> val \<Rightarrow> world \<Rightarrow> error + world" where
  "NodeBase_init self source_ref w =
     andThen (setattr self ''parent'' VNone w) (setattr self ''source_ref'' source_ref)"

definition StatementChildrenHavingBase_init ::
  "(string \<rightharpoonup> (world \<Rightarrow> val \<Rightarrow> val)) \<Rightarrow> val \<Rightarrow> (string \<times> val) list \<Rightarrow> val \<Rightarrow> world \<Rightarrow> error + world" where
  "StatementChildrenHavingBase_init checkers self values source_ref w =
     andThen (NodeBase_init self source_ref w) (set_children checkers self values)"

text \<open>
  Modelled from the spec: \<^verbatim>\<open>Checkers.convertNoneConstantToNone\<close> (not in the sources at
  hand) turns a constant-\<^verbatim>\<open>None\<close> literal into "argument absent" and leaves every other
  value as it is.
\<close>

definition isExpressionConstantNoneRef :: "world \<Rightarrow> val \<Rightarrow> bool" where
  "isExpressionConstantNoneRef w v =
     (case v of
        VRef a \<Rightarrow> (case lookup w a of
                     Some ob \<Rightarrow> kind ob = ''EXPRESSION_CONSTANT_NONE_REF''
                   | None \<Rightarrow> False)
      | _ \<Rightarrow> False)"

definition convertNoneConstantToNone :: "world \<Rightarrow> val \<Rightarrow> val" where
  "convertNoneConstantToNone w node =
     (if node = VNone \<or> isExpressionConstantNoneRef w node then VNone else node)"

section \<open>Exception nodes\<close>

subsection \<open>StatementRaiseException and StatementRaiseExceptionImplicit\<close>

text \<open>
  \<^verbatim>\<open>StatementRaiseException.__init__\<close>: three assertions, the base constructor with the
  four children in the order of the \<^verbatim>\<open>values\<close> dictionary, and the slot
  \<^verbatim>\<open>reraise_finally\<close>.
\<close>

definition StatementRaiseException_init ::
  "val \<Rightarrow> val \<Rightarrow> val \<Rightarrow> val \<Rightarrow> val \<Rightarrow> val \<Rightarrow> world \<Rightarrow> error + world" where
  "StatementRaiseException_init self exception_type exception_value exception_trace
       exception_cause source_ref w =
     (if \<not> (exception_type \<noteq> VNone) then Inl AssertionError
      else if exception_type = VNone \<and> \<not> (exception_value = VNone) then Inl AssertionError
      else if exception_value = VNone \<and> \<not> (exception_trace = VNone) then Inl AssertionError
      else
        andThen
          (StatementChildrenHavingBase_init Map.empty self
             [(''exception_type'', exception_type),
              (''exception_value'', exception_value),
              (''exception_trace'', exception_trace),
              (''exception_cause'', exception_cause)]
             source_ref w)
          (setattr self ''reraise_finally'' (VBool False)))"

text \<open>
  The class call: a new instance of the class with the given \<^verbatim>\<open>kind\<close>, then
  \<^verbatim>\<open>__init__\<close>.  \<^verbatim>\<open>StatementRaiseExceptionImplicit\<close> inherits the constructor and
  differs in its kind only.
\<close>

definition StatementRaiseException_new ::
  "string \<Rightarrow> val \<Rightarrow> val \<Rightarrow> val \<Rightarrow> val \<Rightarrow> val \<Rightarrow> world \<Rightarrow> error + val \<times> world" where
  "StatementRaiseException_new k exception_type exception_value exception_trace
       exception_cause source_ref w =
     (case new_object k w of
        (a, w1) \<Rightarrow>
          andThen
            (StatementRaiseException_init (VRef a) exception_type exception_value
               exception_trace exception_cause source_ref w1)
            (\<lambda>w2. Inr (VRef a, w2)))"

definition StatementRaiseException ::
  "val \<Rightarrow> val \<Rightarrow> val \<Rightarrow> val \<Rightarrow> val \<Rightarrow> world \<Rightarrow> error + val \<times> world" where
  "StatementRaiseException = StatementRaiseException_new ''STATEMENT_RAISE_EXCEPTION''"

definition StatementRaiseExceptionImplicit ::
  "val \<Rightarrow> val \<Rightarrow> val \<Rightarrow> val \<Rightarrow> val \<Rightarrow> world \<Rightarrow> error + val \<times> world" where
  "StatementRaiseExceptionImplicit =
     StatementRaiseException_new ''STATEMENT_RAISE_EXCEPTION_IMPLICIT''"

text \<open>
  \<^verbatim>\<open>StatementRaiseException.computeStatement\<close>.  The trace collection of the pass is the
  component \<^verbatim>\<open>tc\<close> of the world.
\<close>

definition StatementRaiseException_computeStatement ::
  "collaborators \<Rightarrow> addr \<Rightarrow> world \<Rightarrow> error + change_result \<times> world" where
  "StatementRaiseException_computeStatement env self w =
     andThen (getattr (VRef self) ''subnode_exception_type'' w) (\<lambda>t0.
     andThen (onExpression env t0 True w) (\<lambda>(exception_type, w1).
     let w2 = onExceptionRaiseExit BaseException w1 in
     if exception_type \<noteq> VNone \<and> willRaiseAnyException env w2 exception_type then
       andThen (makeStatementExpressionOnlyReplacementNode env exception_type (VRef self) w2)
         (\<lambda>(result, w3).
            Inr ((result, Some ''new_raise'',
                  Some ''Explicit raise already raises implicitly building exception type.''),
                 w3))
     else
     andThen (getattr (VRef self) ''subnode_exception_value'' w2) (\<lambda>v0.
     andThen (onExpression env v0 True w2) (\<lambda>(exception_value, w3).
     if exception_value \<noteq> VNone \<and> willRaiseAnyException env w3 exception_value then
       andThen (makeStatementOnlyNodesFromExpressions env [exception_type, exception_value] w3)
         (\<lambda>(result, w4).
            Inr ((result, Some ''new_raise'',
                  Some ''Explicit raise already raises implicitly building exception value.''),
                 w4))
     else
     andThen (getattr (VRef self) ''subnode_exception_trace'' w3) (\<lambda>tr0.
     andThen (onExpression env tr0 True w3) (\<lambda>(exception_trace, w4).
     if exception_trace \<noteq> VNone \<and> willRaiseAnyException env w4 exception_trace then
       andThen
         (makeStatementOnlyNodesFromExpressions env
            [exception_type, exception_value, exception_trace] w4)
         (\<lambda>(result, w5).
            Inr ((result, Some ''new_raise'',
                  Some ''Explicit raise already raises implicitly building exception traceback.''),
                 w5))
     else
     andThen (getattr (VRef self) ''subnode_exception_cause'' w4) (\<lambda>c0.
     andThen (onExpression env c0 True w4) (\<lambda>(exception_cause, w5).
     if exception_cause \<noteq> VNone \<and> willRaiseAnyException env w5 exception_cause then
       andThen (makeStatementOnlyNodesFromExpressions env [exception_type, exception_cause] w5)
         (\<lambda>(result, w6).
            Inr ((result, Some ''new_raise'',
                  Some (CHR 0x0A #
                        ''Explicit raise already raises implicitly building exception cause.'')),
                 w6))
     else Inr ((VRef self, None, None), w5)))))))))"

subsection \<open>StatementReraiseException\<close>

definition StatementReraiseException_computeStatement ::
  "addr \<Rightarrow> world \<Rightarrow> error + change_result \<times> world" where
  "StatementReraiseException_computeStatement self w =
     (let w1 = onExceptionRaiseExit BaseException w
      in Inr ((VRef self, None, None), w1))"

subsection \<open>ExpressionRaiseException\<close>

definition ExpressionRaiseException_computeExpression ::
  "addr \<Rightarrow> world \<Rightarrow> error + change_result \<times> world" where
  "ExpressionRaiseException_computeExpression self w =
     (let w1 = onExceptionRaiseExit BaseException w
      in Inr ((VRef self, None, None), w1))"

definition ExpressionRaiseException_asStatement :: "addr \<Rightarrow> world \<Rightarrow> error + val \<times> world" where
  "ExpressionRaiseException_asStatement self w =
     andThen (getattr (VRef self) ''subnode_exception_type'' w) (\<lambda>exception_type.
     andThen (getattr (VRef self) ''subnode_exception_value'' w) (\<lambda>exception_value.
     andThen (getattr (VRef self) ''source_ref'' w) (\<lambda>source_ref.
       StatementRaiseExceptionImplicit exception_type exception_value VNone VNone
         source_ref w)))"

definition ExpressionRaiseException_computeExpressionDrop ::
  "addr \<Rightarrow> val \<Rightarrow> world \<Rightarrow> error + change_result \<times> world" where
  "ExpressionRaiseException_computeExpressionDrop self statement w =
     andThen (ExpressionRaiseException_asStatement self w) (\<lambda>(result, w1).
     andThen (delattr (VRef self) ''parent'' w1) (\<lambda>w2.
       Inr ((result, Some ''new_raise'',
             Some ''Propagated implicit raise expression to raise statement.''),
            w2)))"

subsection \<open>ExpressionBuiltinMakeException and ExpressionBuiltinMakeExceptionImportError\<close>

definition ExpressionBuiltinMakeException_computeExpression ::
  "addr \<Rightarrow> world \<Rightarrow> error + change_result \<times> world" where
  "ExpressionBuiltinMakeException_computeExpression self w = Inr ((VRef self, None, None), w)"

text \<open>
  The loop \<^verbatim>\<open>for arg in self.subnode_args\<close>: the first argument that may raise ends it
  with \<^verbatim>\<open>True\<close>.
\<close>

fun args_mayRaiseException :: "collaborators \<Rightarrow> world \<Rightarrow> val list \<Rightarrow> string \<Rightarrow> bool" where
  "args_mayRaiseException env w [] exception_type = False"
| "args_mayRaiseException env w (arg # args) exception_type =
     (if mayRaiseException env w arg exception_type then True
      else args_mayRaiseException env w args exception_type)"

definition ExpressionBuiltinMakeException_mayRaiseException ::
  "collaborators \<Rightarrow> addr \<Rightarrow> string \<Rightarrow> world \<Rightarrow> error + bool" where
  "ExpressionBuiltinMakeException_mayRaiseException env self exception_type w =
     andThen (getattr (VRef self) ''subnode_args'' w) (\<lambda>subnode_args.
       case subnode_args of
         VList args \<Rightarrow> Inr (args_mayRaiseException env w args exception_type)
       | _ \<Rightarrow> Inl TypeError)"

definition ExpressionBuiltinMakeExceptionImportError_computeExpression ::
  "addr \<Rightarrow> world \<Rightarrow> error + change_result \<times> world" where
  "ExpressionBuiltinMakeExceptionImportError_computeExpression self w =
     Inr ((VRef self, None, None), w)"

definition ExpressionBuiltinMakeExceptionImportError_mayRaiseException ::
  "collaborators \<Rightarrow> addr \<Rightarrow> string \<Rightarrow> world \<Rightarrow> error + bool" where
  "ExpressionBuiltinMakeExceptionImportError_mayRaiseException env self exception_type w =
     andThen (getattr (VRef self) ''subnode_args'' w) (\<lambda>subnode_args.
       case subnode_args of
         VList args \<Rightarrow> Inr (args_mayRaiseException env w args exception_type)
       | _ \<Rightarrow> Inl TypeError)"

section \<open>Exec and eval nodes\<close>

subsection \<open>StatementExec\<close>

text \<open>
  \<^verbatim>\<open>StatementExec.__init__\<close>: the \<^verbatim>\<open>values\<close> dictionary lists \<^verbatim>\<open>globals_arg\<close>,
  \<^verbatim>\<open>locals_arg\<close>, \<^verbatim>\<open>source\<close>; the class registers the checker
  \<^verbatim>\<open>convertNoneConstantToNone\<close> for \<^verbatim>\<open>globals_arg\<close> and \<^verbatim>\<open>locals_arg\<close>.
\<close>

definition StatementExec_checkers :: "string \<rightharpoonup> (world \<Rightarrow> val \<Rightarrow> val)" where
  "StatementExec_checkers =
     [''globals_arg'' \<mapsto> convertNoneConstantToNone,
      ''locals_arg'' \<mapsto> convertNoneConstantToNone]"

definition StatementExec_init :: "val \<Rightarrow> val \<Rightarrow> val \<Rightarrow> val \<Rightarrow> val \<Rightarrow> world \<Rightarrow> error + world" where
  "StatementExec_init self source_code globals_arg locals_arg source_ref w =
     StatementChildrenHavingBase_init StatementExec_checkers self
       [(''globals_arg'', globals_arg),
        (''locals_arg'', locals_arg),
        (''source'', source_code)]
       source_ref w"

definition StatementExec :: "val \<Rightarrow> val \<Rightarrow> val \<Rightarrow> val \<Rightarrow> world \<Rightarrow> error + val \<times> world" where
  "StatementExec source_code globals_arg locals_arg source_ref w =
     (case new_object ''STATEMENT_EXEC'' w of
        (a, w1) \<Rightarrow>
          andThen (StatementExec_init (VRef a) source_code globals_arg locals_arg source_ref w1)
            (\<lambda>w2. Inr (VRef a, w2)))"

text \<open>
  \<^verbatim>\<open>StatementExec.computeStatement\<close>.  The source child is computed without
  \<^verbatim>\<open>allow_none\<close> and its methods are called without a test for \<^verbatim>\<open>None\<close>; calling a
  method of \<^verbatim>\<open>None\<close> is an \<^verbatim>\<open>AttributeError\<close>.
\<close>

definition StatementExec_computeStatement ::
  "collaborators \<Rightarrow> addr \<Rightarrow> world \<Rightarrow> error + change_result \<times> world" where
  "StatementExec_computeStatement env self w =
     andThen (getattr (VRef self) ''subnode_source'' w) (\<lambda>s0.
     andThen (onExpression env s0 False w) (\<lambda>(source_code, w1).
     if source_code = VNone then Inl (AttributeError ''mayRaiseException'') else
     let w2 = (if mayRaiseException env w1 source_code BaseException
               then onExceptionRaiseExit BaseException w1 else w1) in
     if willRaiseAnyException env w2 source_code then
       Inr ((source_code, Some ''new_raise'',
             Some ''Exec statement raises implicitly when determining source code argument.''),
            w2)
     else
     andThen (getattr (VRef self) ''subnode_globals_arg'' w2) (\<lambda>g0.
     andThen (onExpression env g0 True w2) (\<lambda>(globals_arg, w3).
     let w4 = (if globals_arg \<noteq> VNone \<and> mayRaiseException env w3 globals_arg BaseException
               then onExceptionRaiseExit BaseException w3 else w3) in
     if globals_arg \<noteq> VNone \<and> willRaiseAnyException env w4 globals_arg then
       andThen (makeStatementOnlyNodesFromExpressions env [source_code, globals_arg] w4)
         (\<lambda>(result, w5).
            Inr ((result, Some ''new_raise'',
                  Some ''Exec statement raises implicitly when determining globals argument.''),
                 w5))
     else
     andThen (getattr (VRef self) ''subnode_locals_arg'' w4) (\<lambda>l0.
     andThen (onExpression env l0 True w4) (\<lambda>(locals_arg, w5).
     let w6 = (if locals_arg \<noteq> VNone \<and> mayRaiseException env w5 locals_arg BaseException
               then onExceptionRaiseExit BaseException w5 else w5) in
     if locals_arg \<noteq> VNone \<and> willRaiseAnyException env w6 locals_arg then
       andThen
         (makeStatementOnlyNodesFromExpressions env [source_code, globals_arg, locals_arg] w6)
         (\<lambda>(result, w7).
            Inr ((result, Some ''new_raise'',
                  Some ''Exec statement raises implicitly when determining locals argument.''),
                 w7))
     else
     let w7 = onExceptionRaiseExit BaseException w6 in
     andThen (getattr (VRef self) ''subnode_source'' w7) (\<lambda>subnode_source.
     if subnode_source = VNone then Inl (AttributeError ''getStrValue'') else
     let str_value = getStrValue env w7 subnode_source in
     if str_value \<noteq> VNone then Inr ((VRef self, None, None), w7)
     else Inr ((VRef self, None, None), w7))))))))"

subsection \<open>ExpressionBuiltinExec\<close>

text \<open>
  \<^verbatim>\<open>ExpressionBuiltinExec.__init__\<close>: the mixin constructor stores the three children,
  the expression base constructor the source reference, and the flag goes to the slot
  \<^verbatim>\<open>in_early_closure\<close>.
\<close>

definition ExpressionBuiltinExec_init ::
  "val \<Rightarrow> val \<Rightarrow> val \<Rightarrow> val \<Rightarrow> val \<Rightarrow> val \<Rightarrow> world \<Rightarrow> error + world" where
  "ExpressionBuiltinExec_init self in_early_closure source_code globals_arg locals_arg
       source_ref w =
     andThen
       (set_children Map.empty self
          [(''source_code'', source_code),
           (''globals_arg'', globals_arg),
           (''locals_arg'', locals_arg)] w) (\<lambda>w1.
     andThen (NodeBase_init self source_ref w1) (\<lambda>w2.
       setattr self ''in_early_closure'' in_early_closure w2))"

definition ExpressionBuiltinExec ::
  "val \<Rightarrow> val \<Rightarrow> val \<Rightarrow> val \<Rightarrow> val \<Rightarrow> world \<Rightarrow> error + val \<times> world" where
  "ExpressionBuiltinExec in_early_closure source_code globals_arg locals_arg source_ref w =
     (case new_object ''EXPRESSION_BUILTIN_EXEC'' w of
        (a, w1) \<Rightarrow>
          andThen
            (ExpressionBuiltinExec_init (VRef a) in_early_closure source_code globals_arg
               locals_arg source_ref w1)
            (\<lambda>w2. Inr (VRef a, w2)))"

text \<open>
  \<^verbatim>\<open>ExpressionBuiltinExec.computeExpressionDrop\<close>: the condition reads the attribute
  \<^verbatim>\<open>early_closure\<close> of the node.
\<close>

definition ExpressionBuiltinExec_computeExpressionDrop ::
  "addr \<Rightarrow> val \<Rightarrow> world \<Rightarrow> error + change_result \<times> world" where
  "ExpressionBuiltinExec_computeExpressionDrop self statement w =
     andThen (getattr (VRef self) ''early_closure'' w) (\<lambda>early_closure.
     if truthy early_closure then
       andThen (getattr (VRef self) ''subnode_source_code'' w) (\<lambda>source_code.
       andThen (getattr (VRef self) ''subnode_globals_arg'' w) (\<lambda>globals_arg.
       andThen (getattr (VRef self) ''subnode_locals_arg'' w) (\<lambda>locals_arg.
       andThen (getattr (VRef self) ''source_ref'' w) (\<lambda>source_ref.
       andThen (StatementExec source_code globals_arg locals_arg source_ref w) (\<lambda>(result, w1).
       andThen (delattr (VRef self) ''parent'' w1) (\<lambda>w2.
         Inr ((result, Some ''new_statements'',
               Some ''Replaced built-in exec call to exec statement in early closure context.''),
              w2)))))))
     else Inr ((statement, None, None), w))"

subsection \<open>StatementLocalsDictSync\<close>

text \<open>
  \<^verbatim>\<open>StatementLocalsDictSync.computeStatement\<close>.  \<^verbatim>\<open>result is not self\<close> compares object
  identity, that is, references.
\<close>

definition StatementLocalsDictSync_computeStatement ::
  "collaborators \<Rightarrow> addr \<Rightarrow> world \<Rightarrow> error + change_result \<times> world" where
  "StatementLocalsDictSync_computeStatement env self w =
     andThen (computeStatementSubExpressions env self w)
       (\<lambda>((result, change_tags, change_desc), w1).
     if result \<noteq> VRef self then Inr ((result, change_tags, change_desc), w1) else
     let provider = getParentVariableProvider env w1 self in
     if isCompiledPythonModule env w1 provider then
       Inr ((VNone, Some ''new_statements'',
             Some ''Removed sync back to locals without locals.''), w1)
     else
     andThen (getattr (VRef self) ''locals_scope'' w1) (\<lambda>locals_scope.
     andThen (setattr (VRef self) ''previous_traces'' (onLocalsUsage env (tc w1) locals_scope) w1) (\<lambda>w2.
     andThen (getattr (VRef self) ''previous_traces'' w2) (\<lambda>previous_traces.
     if \<not> truthy previous_traces then
       Inr ((VNone, Some ''new_statements'',
             Some ''Removed sync back to locals without locals.''), w2)
     else
     let w3 = removeAllKnowledge w2 in
     andThen (getattr (VRef self) ''locals_scope'' w3) (\<lambda>locals_scope2.
     andThen (setattr (VRef self) ''variable_traces'' (onLocalsUsage env (tc w3) locals_scope2) w3) (\<lambda>w4.
       Inr ((VRef self, None, None), w4)))))))"

definition StatementLocalsDictSync_mayRaiseException :: "string \<Rightarrow> bool" where
  "StatementLocalsDictSync_mayRaiseException exception_type = False"

section \<open>A concrete instance of the collaborators\<close>

text \<open>
  Modelled from the spec: the statement classes \<^verbatim>\<open>StatementExpressionOnly\<close> and
  \<^verbatim>\<open>StatementsSequence\<close> (not in the sources at hand).  A side-effect-only statement
  evaluates one expression and discards the value; a statement sequence owns its
  statements in order.
\<close>

definition StatementExpressionOnly :: "val \<Rightarrow> val \<Rightarrow> world \<Rightarrow> error + val \<times> world" where
  "StatementExpressionOnly expression source_ref w =
     (case new_object ''STATEMENT_EXPRESSION_ONLY'' w of
        (a, w1) \<Rightarrow>
          andThen
            (StatementChildrenHavingBase_init Map.empty (VRef a)
               [(''expression'', expression)] source_ref w1)
            (\<lambda>w2. Inr (VRef a, w2)))"

definition StatementsSequence :: "val list \<Rightarrow> val \<Rightarrow> world \<Rightarrow> error + val \<times> world" where
  "StatementsSequence statements source_ref w =
     (case new_object ''STATEMENTS_SEQUENCE'' w of
        (a, w1) \<Rightarrow>
          andThen
            (StatementChildrenHavingBase_init Map.empty (VRef a)
               [(''statements'', VList statements)] source_ref w1)
            (\<lambda>w2. Inr (VRef a, w2)))"

text \<open>
  Modelled from the spec: \<^verbatim>\<open>NodeMakingHelpers.makeStatementOnlyNodesFromExpressions\<close> and
  \<^verbatim>\<open>makeStatementExpressionOnlyReplacementNode\<close> (not in the sources at hand) turn
  already evaluated expressions into a side-effect-only statement sequence: every
  expression is wrapped into an expression-only statement that takes its source
  location from the expression (from the replaced node, for the second helper), and
  the statements are put into one sequence, in the order given.
\<close>

fun expression_only_statements :: "val list \<Rightarrow> world \<Rightarrow> error + val list \<times> world" where
  "expression_only_statements [] w = Inr ([], w)"
| "expression_only_statements (expression # expressions) w =
     andThen (getattr expression ''source_ref'' w) (\<lambda>source_ref.
     andThen (StatementExpressionOnly expression source_ref w) (\<lambda>(statement, w1).
     andThen (expression_only_statements expressions w1) (\<lambda>(statements, w2).
       Inr (statement # statements, w2))))"

definition statement_only_nodes :: "val list \<Rightarrow> world \<Rightarrow> error + val \<times> world" where
  "statement_only_nodes expressions w =
     andThen (expression_only_statements expressions w) (\<lambda>(statements, w1).
     andThen (case statements of
                [] \<Rightarrow> Inr VNone
              | statement # _ \<Rightarrow> getattr statement ''source_ref'' w1) (\<lambda>source_ref.
       StatementsSequence statements source_ref w1))"

definition statement_expression_only_replacement ::
  "val \<Rightarrow> val \<Rightarrow> world \<Rightarrow> error + val \<times> world" where
  "statement_expression_only_replacement expression node w =
     andThen (getattr node ''source_ref'' w) (\<lambda>source_ref.
       StatementExpressionOnly expression source_ref w)"

text \<open>
  The expressions that a side-effect-only statement sequence evaluates, in order
  (read back from the store).
\<close>

fun statement_expressions :: "val list \<Rightarrow> world \<Rightarrow> error + val list" where
  "statement_expressions [] w = Inr []"
| "statement_expressions (statement # statements) w =
     andThen (getattr statement ''subnode_expression'' w) (\<lambda>expression.
     andThen (statement_expressions statements w) (\<lambda>expressions.
       Inr (expression # expressions)))"

definition sequence_expressions :: "val \<Rightarrow> world \<Rightarrow> error + val list" where
  "sequence_expressions node w =
     andThen (getattr node ''subnode_statements'' w) (\<lambda>statements.
       case statements of
         VList xs \<Rightarrow> statement_expressions xs w
       | _ \<Rightarrow> Inl TypeError)"

definition kind_of :: "world \<Rightarrow> val \<Rightarrow> string" where
  "kind_of w v =
     (case v of
        VRef a \<Rightarrow> (case lookup w a of Some ob \<Rightarrow> kind ob | None \<Rightarrow> [])
      | _ \<Rightarrow> [])"

text \<open>
  To run the node methods on concrete trees, the collaborators are instantiated.
  In the instance, computing a raise expression is
  \<^verbatim>\<open>ExpressionRaiseException.computeExpression\<close>, which records an exception exit and
  returns the node; every other child expression is already at its fixpoint (computing
  it returns it unchanged and leaves the world as it is).  An expression is certain to
  raise exactly when it is an \<^verbatim>\<open>ExpressionRaiseException\<close> (whose
  \<^verbatim>\<open>willRaiseAnyException\<close> returns \<^verbatim>\<open>True\<close>), everything but a constant may raise, the
  statement's sub-expression pass leaves it in place, and the variable provider of a
  node is its parent.  A variable trace that \<^verbatim>\<open>onLocalsUsage\<close> returns is the variable
  recorded for the scope together with the fact that the trace collection currently
  knows about it (\<^verbatim>\<open>None\<close> when it knows nothing).
\<close>

definition known_fact :: "trace_collection \<Rightarrow> val \<Rightarrow> val" where
  "known_fact t variable =
     (case map_of (knowledge t) variable of Some known \<Rightarrow> known | None \<Rightarrow> VNone)"

definition example_collaborators :: collaborators where
  "example_collaborators =
     \<lparr>computeExpressionRaw =
        (\<lambda>expression w.
           case expression of
             VRef a \<Rightarrow>
               if kind_of w expression = ''EXPRESSION_RAISE_EXCEPTION''
               then andThen (ExpressionRaiseException_computeExpression a w)
                      (\<lambda>((result, change_tags, change_desc), w1). Inr (result, w1))
               else Inr (expression, w)
           | _ \<Rightarrow> Inr (expression, w)),
      willRaiseAnyException = (\<lambda>w v. kind_of w v = ''EXPRESSION_RAISE_EXCEPTION''),
      mayRaiseException = (\<lambda>w v c. kind_of w v \<noteq> ''EXPRESSION_CONSTANT_REF''),
      getStrValue = (\<lambda>w v. VNone),
      makeStatementOnlyNodesFromExpressions = statement_only_nodes,
      makeStatementExpressionOnlyReplacementNode = statement_expression_only_replacement,
      computeStatementSubExpressions = (\<lambda>self w. Inr ((VRef self, None, None), w)),
      getParentVariableProvider =
        (\<lambda>w self. case getattr (VRef self) ''parent'' w of Inr p \<Rightarrow> p | Inl e \<Rightarrow> VNone),
      isCompiledPythonModule = (\<lambda>w v. kind_of w v = ''COMPILED_PYTHON_MODULE''),
      onLocalsUsage =
        (\<lambda>t scope. VList (map (\<lambda>variable. VList [variable, known_fact t variable])
                              (locals_records t scope)))\<rparr>"

section \<open>The validation invariant and concrete trees\<close>

text \<open>
  The validation invariant of the spec on a raise statement, read off a node in the
  store: the value is absent whenever the type is absent, and the traceback is absent
  whenever the value is absent.
\<close>

definition progressive_nesting :: "world \<Rightarrow> val \<Rightarrow> bool" where
  "progressive_nesting w node =
     (case (getattr node ''subnode_exception_type'' w,
            getattr node ''subnode_exception_value'' w,
            getattr node ''subnode_exception_trace'' w) of
        (Inr t, Inr v, Inr tr) \<Rightarrow> (t = VNone \<longrightarrow> v = VNone) \<and> (v = VNone \<longrightarrow> tr = VNone)
      | _ \<Rightarrow> False)"

definition empty_trace_collection :: trace_collection where
  "empty_trace_collection =
     \<lparr>exception_exits = [], locals_records = (\<lambda>scope. []), knowledge = []\<rparr>"

text \<open>\<^verbatim>\<open>ValueError(1, f())\<close> as an exception-making node with its two arguments.\<close>

definition make_exception_world :: world where
  "make_exception_world =
     \<lparr>heap =
        [\<lparr>kind = ''EXPRESSION_CONSTANT_REF'', attrs = [''parent'' \<mapsto> VRef 2]\<rparr>,
         \<lparr>kind = ''EXPRESSION_CALL'', attrs = [''parent'' \<mapsto> VRef 2]\<rparr>,
         \<lparr>kind = ''EXPRESSION_BUILTIN_MAKE_EXCEPTION'',
          attrs = [''subnode_args'' \<mapsto> VList [VRef 0, VRef 1],
                   ''exception_name'' \<mapsto> VStr ''ValueError'']\<rparr>],
      tc = empty_trace_collection\<rparr>"

text \<open>Two expressions that are not yet children of a statement.\<close>

definition raise_arguments_world :: world where
  "raise_arguments_world =
     \<lparr>heap =
        [\<lparr>kind = ''EXPRESSION_VARIABLE_REF'',
          attrs = [''parent'' \<mapsto> VNone, ''source_ref'' \<mapsto> VStr ''f.py:1'']\<rparr>,
         \<lparr>kind = ''EXPRESSION_CALL'',
          attrs = [''parent'' \<mapsto> VNone, ''source_ref'' \<mapsto> VStr ''f.py:1'']\<rparr>],
      tc = empty_trace_collection\<rparr>"

text \<open>A value that may be passed as an optional child: absent, or a node of the store.\<close>

definition node_or_none :: "world \<Rightarrow> val \<Rightarrow> bool" where
  "node_or_none w v =
     (case v of VNone \<Rightarrow> True | VRef a \<Rightarrow> a < length (heap w) | _ \<Rightarrow> False)"

text \<open>
  A raise expression with type and value, as the expression of an expression
  statement whose value is discarded.
\<close>

definition raise_expression_world :: world where
  "raise_expression_world =
     \<lparr>heap =
        [\<lparr>kind = ''EXPRESSION_BUILTIN_EXCEPTION_REF'',
          attrs = [''parent'' \<mapsto> VRef 2, ''source_ref'' \<mapsto> VStr ''f.py:3'']\<rparr>,
         \<lparr>kind = ''EXPRESSION_CONSTANT_REF'',
          attrs = [''parent'' \<mapsto> VRef 2, ''source_ref'' \<mapsto> VStr ''f.py:3'']\<rparr>,
         \<lparr>kind = ''EXPRESSION_RAISE_EXCEPTION'',
          attrs = [''subnode_exception_type'' \<mapsto> VRef 0,
                   ''subnode_exception_value'' \<mapsto> VRef 1,
                   ''parent'' \<mapsto> VRef 3, ''source_ref'' \<mapsto> VStr ''f.py:3'']\<rparr>,
         \<lparr>kind = ''STATEMENT_EXPRESSION_ONLY'',
          attrs = [''subnode_expression'' \<mapsto> VRef 2,
                   ''parent'' \<mapsto> VNone, ''source_ref'' \<mapsto> VStr ''f.py:3'']\<rparr>],
      tc = empty_trace_collection\<rparr>"

text \<open>The arguments of \<^verbatim>\<open>exec(code, None, None)\<close>, not yet children of a statement.\<close>

definition exec_arguments_world :: world where
  "exec_arguments_world =
     \<lparr>heap =
        [\<lparr>kind = ''EXPRESSION_VARIABLE_REF'',
          attrs = [''parent'' \<mapsto> VNone, ''source_ref'' \<mapsto> VStr ''f.py:5'']\<rparr>,
         \<lparr>kind = ''EXPRESSION_CONSTANT_NONE_REF'',
          attrs = [''parent'' \<mapsto> VNone, ''source_ref'' \<mapsto> VStr ''f.py:5'']\<rparr>,
         \<lparr>kind = ''EXPRESSION_CONSTANT_NONE_REF'',
          attrs = [''parent'' \<mapsto> VNone, ''source_ref'' \<mapsto> VStr ''f.py:5'']\<rparr>],
      tc = empty_trace_collection\<rparr>"

text \<open>
  What \<^verbatim>\<open>StatementExec.computeStatement\<close> does to the trace collection after it has
  computed a child: if the child is present and may raise, an exception exit is
  recorded.
\<close>

definition possible_exit :: "collaborators \<Rightarrow> val \<Rightarrow> world \<Rightarrow> world" where
  "possible_exit env child w =
     (if child \<noteq> VNone \<and> mayRaiseException env w child BaseException
      then onExceptionRaiseExit BaseException w else w)"



text \<open>
  The arguments of an exec statement whose locals argument is certain to raise: the
  source, a globals argument and the locals argument, not yet children of a statement.
\<close>

definition exec_locals_raise_world :: world where
  "exec_locals_raise_world =
     \<lparr>heap =
        [\<lparr>kind = ''EXPRESSION_VARIABLE_REF'',
          attrs = [''parent'' \<mapsto> VNone, ''source_ref'' \<mapsto> VStr ''f.py:4'']\<rparr>,
         \<lparr>kind = ''EXPRESSION_VARIABLE_REF'',
          attrs = [''parent'' \<mapsto> VNone, ''source_ref'' \<mapsto> VStr ''f.py:4'']\<rparr>,
         \<lparr>kind = ''EXPRESSION_RAISE_EXCEPTION'',
          attrs = [''parent'' \<mapsto> VNone, ''source_ref'' \<mapsto> VStr ''f.py:4'']\<rparr>],
      tc = empty_trace_collection\<rparr>"

text \<open>
  Three locals-synchronisation statements: one directly under the module (node 2),
  two under a function body, of which the scope of the first has no recorded
  variables (node 3) and the scope of the second has two (node 4).
\<close>

definition locals_sync_world :: world where
  "locals_sync_world =
     \<lparr>heap =
        [\<lparr>kind = ''COMPILED_PYTHON_MODULE'', attrs = [''parent'' \<mapsto> VNone]\<rparr>,
         \<lparr>kind = ''EXPRESSION_FUNCTION_BODY'', attrs = [''parent'' \<mapsto> VRef 0]\<rparr>,
         \<lparr>kind = ''STATEMENT_LOCALS_DICT_SYNC'',
          attrs = [''subnode_locals_arg'' \<mapsto> VNone, ''locals_scope'' \<mapsto> VStr ''locals_m'',
                   ''previous_traces'' \<mapsto> VNone, ''variable_traces'' \<mapsto> VNone,
                   ''parent'' \<mapsto> VRef 0]\<rparr>,
         \<lparr>kind = ''STATEMENT_LOCALS_DICT_SYNC'',
          attrs = [''subnode_locals_arg'' \<mapsto> VNone, ''locals_scope'' \<mapsto> VStr ''locals_f'',
                   ''previous_traces'' \<mapsto> VNone, ''variable_traces'' \<mapsto> VNone,
                   ''parent'' \<mapsto> VRef 1]\<rparr>,
         \<lparr>kind = ''STATEMENT_LOCALS_DICT_SYNC'',
          attrs = [''subnode_locals_arg'' \<mapsto> VNone, ''locals_scope'' \<mapsto> VStr ''locals_g'',
                   ''previous_traces'' \<mapsto> VNone, ''variable_traces'' \<mapsto> VNone,
                   ''parent'' \<mapsto> VRef 1]\<rparr>],
      tc = \<lparr>exception_exits = [],
            locals_records =
              (\<lambda>scope. if scope = VStr ''locals_g'' then [VStr ''x'', VStr ''y''] else []),
            knowledge = [(VStr ''x'', VStr ''int'')]\<rparr>\<rparr>"


text \<open>
  The source, an expression statement, and a globals and a locals argument, before
  \<^verbatim>\<open>exec(code, g, l)\<close> is built as the expression of that statement.
\<close>

definition exec_expression_world :: world where
  "exec_expression_world =
     \<lparr>heap =
        [\<lparr>kind = ''EXPRESSION_VARIABLE_REF'',
          attrs = [''parent'' \<mapsto> VNone, ''source_ref'' \<mapsto> VStr ''f.py:7'']\<rparr>,
         \<lparr>kind = ''STATEMENT_EXPRESSION_ONLY'',
          attrs = [''parent'' \<mapsto> VNone, ''source_ref'' \<mapsto> VStr ''f.py:7'']\<rparr>,
         \<lparr>kind = ''EXPRESSION_VARIABLE_REF'',
          attrs = [''parent'' \<mapsto> VNone, ''source_ref'' \<mapsto> VStr ''f.py:7'']\<rparr>,
         \<lparr>kind = ''EXPRESSION_VARIABLE_REF'',
          attrs = [''parent'' \<mapsto> VNone, ''source_ref'' \<mapsto> VStr ''f.py:7'']\<rparr>],
      tc = empty_trace_collection\<rparr>"

text \<open>
  A raise statement with type, value and cause, whose cause is an expression that is
  certain to raise.
\<close>

definition raise_with_cause_world :: world where
  "raise_with_cause_world =
     \<lparr>heap =
        [\<lparr>kind = ''EXPRESSION_BUILTIN_EXCEPTION_REF'',
          attrs = [''parent'' \<mapsto> VRef 3, ''source_ref'' \<mapsto> VStr ''f.py:9'']\<rparr>,
         \<lparr>kind = ''EXPRESSION_CALL'',
          attrs = [''parent'' \<mapsto> VRef 3, ''source_ref'' \<mapsto> VStr ''f.py:9'']\<rparr>,
         \<lparr>kind = ''EXPRESSION_RAISE_EXCEPTION'',
          attrs = [''parent'' \<mapsto> VRef 3, ''source_ref'' \<mapsto> VStr ''f.py:9'']\<rparr>,
         \<lparr>kind = ''STATEMENT_RAISE_EXCEPTION'',
          attrs = [''subnode_exception_type'' \<mapsto> VRef 0,
                   ''subnode_exception_value'' \<mapsto> VRef 1,
                   ''subnode_exception_trace'' \<mapsto> VNone,
                   ''subnode_exception_cause'' \<mapsto> VRef 2,
                   ''reraise_finally'' \<mapsto> VBool False,
                   ''parent'' \<mapsto> VNone, ''source_ref'' \<mapsto> VStr ''f.py:9'']\<rparr>],
      tc = empty_trace_collection\<rparr>"


section \<open>Theorems\<close>

subsection \<open>Sequencing, attributes and constructors\<close>

lemma andThen_Inr_iff: "andThen m f = Inr y \<longleftrightarrow> (\<exists>x. m = Inr x \<and> f x = Inr y)"
  by (cases m) (simp_all add: andThen_def)

lemma andThen_Inl_iff:
  "andThen m f = Inl e \<longleftrightarrow> m = Inl e \<or> (\<exists>x. m = Inr x \<and> f x = Inl e)"
  by (cases m) (simp_all add: andThen_def)

lemma andThen_Inr [simp]: "andThen (Inr x) f = f x"
  by (simp add: andThen_def)

lemma andThen_Inl [simp]: "andThen (Inl e) f = Inl e"
  by (simp add: andThen_def)

lemma getattr_setattr:
  assumes "setattr v n x w = Inr w'"
  shows "getattr u m w' = (if u = v \<and> m = n then Inr x else getattr u m w)"
  using assms
  by (auto simp: setattr_def getattr_def lookup_def nth_list_update
      split: val.splits option.splits if_splits)

lemma getattr_set_parents:
  "set_parents xs p w = Inr w' \<Longrightarrow> m \<noteq> ''parent'' \<Longrightarrow> getattr u m w' = getattr u m w"
proof (induction xs arbitrary: w)
  case Nil
  then show ?case by simp
next
  case (Cons x xs)
  from Cons.prems(1) obtain w1 where s: "setattr x ''parent'' p w = Inr w1"
    and r: "set_parents xs p w1 = Inr w'"
    by (auto simp: andThen_Inr_iff)
  from Cons.IH [OF r Cons.prems(2)] getattr_setattr [OF s] Cons.prems(2)
  show ?case by simp
qed

lemma getattr_set_child:
  assumes "set_child checkers self name v w = Inr w'" and "m \<noteq> ''parent''"
  shows "getattr u m w' =
           (if u = self \<and> m = ''subnode_'' @ name
            then Inr (case checkers name of Some check \<Rightarrow> check w v | None \<Rightarrow> v)
            else getattr u m w)"
proof -
  let ?v = "case checkers name of Some check \<Rightarrow> check w v | None \<Rightarrow> v"
  from assms(1) obtain w1 where
    p: "(case ?v of VNone \<Rightarrow> Inr w | VList xs \<Rightarrow> set_parents xs self w
          | _ \<Rightarrow> setattr ?v ''parent'' self w) = Inr w1"
    and s: "setattr self (''subnode_'' @ name) ?v w1 = Inr w'"
    by (auto simp: set_child_def Let_def andThen_Inr_iff)
  from p assms(2) have "getattr u m w1 = getattr u m w"
    by (cases ?v) (auto simp: getattr_setattr getattr_set_parents)
  with getattr_setattr [OF s] show ?thesis by simp
qed

lemma getattr_NodeBase_init:
  assumes "NodeBase_init self r w = Inr w'" and "m \<noteq> ''parent''"
  shows "getattr u m w' = (if u = self \<and> m = ''source_ref'' then Inr r else getattr u m w)"
proof -
  from assms(1) obtain w1 where a: "setattr self ''parent'' VNone w = Inr w1"
    and b: "setattr self ''source_ref'' r w1 = Inr w'"
    by (auto simp: NodeBase_init_def andThen_Inr_iff)
  from getattr_setattr [OF a, of u m] getattr_setattr [OF b, of u m] assms(2)
  show ?thesis by simp
qed

lemma length_heap_setattr:
  "setattr v n x w = Inr w' \<Longrightarrow> length (heap w') = length (heap w)"
  by (auto simp: setattr_def lookup_def split: val.splits option.splits if_splits)

lemma kind_of_setattr: "setattr v n x w = Inr w' \<Longrightarrow> kind_of w' u = kind_of w u"
  by (auto simp: setattr_def lookup_def kind_of_def nth_list_update
      split: val.splits option.splits if_splits)

lemma setattr_valid:
  "a < length (heap w) \<Longrightarrow> \<exists>w'. setattr (VRef a) n x w = Inr w'"
  by (simp add: setattr_def lookup_def)

lemma getattr_present_setattr:
  "setattr v n x w = Inr w' \<Longrightarrow> getattr u m w = Inr y \<Longrightarrow> \<exists>y'. getattr u m w' = Inr y'"
  by (simp add: getattr_setattr)

lemma getattr_present_set_parents:
  "set_parents xs p w = Inr w' \<Longrightarrow> getattr u m w = Inr y \<Longrightarrow> \<exists>y'. getattr u m w' = Inr y'"
proof (induction xs arbitrary: w y)
  case Nil
  then show ?case by simp
next
  case (Cons x xs)
  from Cons.prems(1) obtain w1 where s: "setattr x ''parent'' p w = Inr w1"
    and r: "set_parents xs p w1 = Inr w'"
    by (auto simp: andThen_Inr_iff)
  from getattr_present_setattr [OF s Cons.prems(2)] obtain y1 where
    "getattr u m w1 = Inr y1" by blast
  from Cons.IH [OF r this] show ?case .
qed

lemma getattr_present_set_child:
  assumes "set_child checkers self name v w = Inr w'" and "getattr u m w = Inr y"
  shows "\<exists>y'. getattr u m w' = Inr y'"
proof -
  let ?v = "case checkers name of Some check \<Rightarrow> check w v | None \<Rightarrow> v"
  from assms(1) obtain w1 where
    p: "(case ?v of VNone \<Rightarrow> Inr w | VList xs \<Rightarrow> set_parents xs self w
          | _ \<Rightarrow> setattr ?v ''parent'' self w) = Inr w1"
    and s: "setattr self (''subnode_'' @ name) ?v w1 = Inr w'"
    by (auto simp: set_child_def Let_def andThen_Inr_iff)
  from p assms(2) have "\<exists>y1. getattr u m w1 = Inr y1"
    by (cases ?v) (auto simp: getattr_setattr dest: getattr_present_set_parents)
  then show ?thesis by (auto dest: getattr_present_setattr [OF s])
qed

lemma getattr_present_set_children:
  "set_children checkers self vs w = Inr w' \<Longrightarrow> getattr u m w = Inr y
     \<Longrightarrow> \<exists>y'. getattr u m w' = Inr y'"
proof (induction vs arbitrary: w y)
  case Nil
  then show ?case by simp
next
  case (Cons nv vs)
  obtain name v where nv: "nv = (name, v)" by (cases nv)
  from Cons.prems(1) nv obtain w1 where s: "set_child checkers self name v w = Inr w1"
    and r: "set_children checkers self vs w1 = Inr w'"
    by (auto simp: andThen_Inr_iff)
  from getattr_present_set_child [OF s Cons.prems(2)] obtain y1 where
    "getattr u m w1 = Inr y1" by blast
  from Cons.IH [OF r this] show ?case .
qed

lemma getattr_new_object:
  "getattr u m w = Inr y \<Longrightarrow> getattr u m (snd (new_object k w)) = Inr y"
  by (auto simp: getattr_def new_object_def lookup_def nth_append
      split: val.splits option.splits if_splits)

lemma getattr_present_StatementChildrenHavingBase_init:
  assumes "StatementChildrenHavingBase_init checkers self vs r w = Inr w'"
    and "getattr u m w = Inr y"
  shows "\<exists>y'. getattr u m w' = Inr y'"
proof -
  from assms(1) obtain w1 w2 where a: "setattr self ''parent'' VNone w = Inr w1"
    and b: "setattr self ''source_ref'' r w1 = Inr w2"
    and c: "set_children checkers self vs w2 = Inr w'"
    by (auto simp: StatementChildrenHavingBase_init_def NodeBase_init_def andThen_Inr_iff)
  from getattr_present_setattr [OF a assms(2)] obtain y1 where "getattr u m w1 = Inr y1"
    by blast
  from getattr_present_setattr [OF b this] obtain y2 where "getattr u m w2 = Inr y2"
    by blast
  from getattr_present_set_children [OF c this] show ?thesis .
qed

lemma kind_of_set_parents:
  "set_parents xs p w = Inr w' \<Longrightarrow> kind_of w' u = kind_of w u"
proof (induction xs arbitrary: w)
  case Nil
  then show ?case by simp
next
  case (Cons x xs)
  from Cons.prems obtain w1 where s: "setattr x ''parent'' p w = Inr w1"
    and r: "set_parents xs p w1 = Inr w'"
    by (auto simp: andThen_Inr_iff)
  from Cons.IH [OF r] kind_of_setattr [OF s] show ?case by simp
qed

lemma kind_of_set_child:
  assumes "set_child checkers self name v w = Inr w'"
  shows "kind_of w' u = kind_of w u"
proof -
  let ?v = "case checkers name of Some check \<Rightarrow> check w v | None \<Rightarrow> v"
  from assms obtain w1 where
    p: "(case ?v of VNone \<Rightarrow> Inr w | VList xs \<Rightarrow> set_parents xs self w
          | _ \<Rightarrow> setattr ?v ''parent'' self w) = Inr w1"
    and s: "setattr self (''subnode_'' @ name) ?v w1 = Inr w'"
    by (auto simp: set_child_def Let_def andThen_Inr_iff)
  from p have "kind_of w1 u = kind_of w u"
    by (cases ?v) (auto simp: kind_of_setattr kind_of_set_parents)
  with kind_of_setattr [OF s] show ?thesis by simp
qed

lemma kind_of_NodeBase_init:
  "NodeBase_init self r w = Inr w' \<Longrightarrow> kind_of w' u = kind_of w u"
  by (auto simp: NodeBase_init_def andThen_Inr_iff kind_of_setattr)

lemma isExpressionConstantNoneRef_kind_of:
  "isExpressionConstantNoneRef w v = (kind_of w v = ''EXPRESSION_CONSTANT_NONE_REF'')"
  by (auto simp: isExpressionConstantNoneRef_def kind_of_def split: val.splits option.splits)

lemma kind_of_new_object:
  "kind_of w v = ''EXPRESSION_CONSTANT_NONE_REF''
     \<Longrightarrow> kind_of (snd (new_object k w)) v = ''EXPRESSION_CONSTANT_NONE_REF''"
  by (auto simp: kind_of_def new_object_def lookup_def nth_append
      split: val.splits option.splits if_splits)


text \<open>The base constructors fail with an attribute error only.\<close>

lemma setattr_no_assertion: "setattr v n x w \<noteq> Inl AssertionError"
  by (simp add: setattr_def split: val.splits option.splits)

lemma set_parents_no_assertion: "set_parents xs p w \<noteq> Inl AssertionError"
  by (induction xs arbitrary: w) (auto simp: andThen_Inl_iff setattr_no_assertion)

lemma set_child_no_assertion: "set_child checkers self name v w \<noteq> Inl AssertionError"
  by (auto simp: set_child_def Let_def andThen_Inl_iff setattr_no_assertion
      set_parents_no_assertion split: val.splits)

lemma set_children_no_assertion: "set_children checkers self vs w \<noteq> Inl AssertionError"
  by (induction vs arbitrary: w) (auto simp: andThen_Inl_iff set_child_no_assertion)

lemma StatementChildrenHavingBase_init_no_assertion:
  "StatementChildrenHavingBase_init checkers self vs r w \<noteq> Inl AssertionError"
  by (auto simp: StatementChildrenHavingBase_init_def NodeBase_init_def andThen_Inl_iff
      setattr_no_assertion set_children_no_assertion)

text \<open>The equations that run the concrete statement-making helpers.\<close>

lemmas statement_only_nodes_eval = statement_only_nodes_def StatementExpressionOnly_def StatementsSequence_def
  new_object_def StatementChildrenHavingBase_init_def NodeBase_init_def set_child_def
  setattr_def sequence_expressions_def Let_def


subsection \<open>Raise statements\<close>

lemma StatementRaiseException_init_children:
  assumes "StatementRaiseException_init self t v tr c r w = Inr w'"
  shows "getattr self ''subnode_exception_type'' w' = Inr t"
    and "getattr self ''subnode_exception_value'' w' = Inr v"
    and "getattr self ''subnode_exception_trace'' w' = Inr tr"
    and "getattr self ''subnode_exception_cause'' w' = Inr c"
    and "getattr self ''source_ref'' w' = Inr r"
    and "t \<noteq> VNone" and "v = VNone \<longrightarrow> tr = VNone"
proof -
  from assms show "t \<noteq> VNone" and "v = VNone \<longrightarrow> tr = VNone"
    by (auto simp: StatementRaiseException_init_def split: if_splits)
  from assms obtain w0 w1 w2 w3 w4 where
    n: "NodeBase_init self r w = Inr w0"
    and c1: "set_child Map.empty self ''exception_type'' t w0 = Inr w1"
    and c2: "set_child Map.empty self ''exception_value'' v w1 = Inr w2"
    and c3: "set_child Map.empty self ''exception_trace'' tr w2 = Inr w3"
    and c4: "set_child Map.empty self ''exception_cause'' c w3 = Inr w4"
    and f: "setattr self ''reraise_finally'' (VBool False) w4 = Inr w'"
    by (auto simp: StatementRaiseException_init_def StatementChildrenHavingBase_init_def
        andThen_Inr_iff split: if_splits)
  note g = getattr_setattr [OF f] getattr_set_child [OF c4] getattr_set_child [OF c3]
    getattr_set_child [OF c2] getattr_set_child [OF c1] getattr_NodeBase_init [OF n]
  show "getattr self ''subnode_exception_type'' w' = Inr t" by (simp add: g)
  show "getattr self ''subnode_exception_value'' w' = Inr v" by (simp add: g)
  show "getattr self ''subnode_exception_trace'' w' = Inr tr" by (simp add: g)
  show "getattr self ''subnode_exception_cause'' w' = Inr c" by (simp add: g)
  show "getattr self ''source_ref'' w' = Inr r" by (simp add: g)
qed

lemma StatementRaiseException_new_Inr:
  assumes "StatementRaiseException_new k t v tr c r w = Inr (node, w')"
  shows "node = VRef (length (heap w))"
    and "StatementRaiseException_init node t v tr c r
           (w\<lparr>heap := heap w @ [\<lparr>kind = k, attrs = Map.empty\<rparr>]\<rparr>) = Inr w'"
  using assms
  by (auto simp: StatementRaiseException_new_def new_object_def andThen_Inr_iff)

lemma StatementRaiseException_new_AssertionError:
  "(StatementRaiseException_new k t v tr c r w = Inl AssertionError)
   = (t = VNone \<or> (v = VNone \<and> tr \<noteq> VNone))"
  by (auto simp: StatementRaiseException_new_def new_object_def
      StatementRaiseException_init_def andThen_Inl_iff setattr_no_assertion
      StatementChildrenHavingBase_init_no_assertion)

text \<open>
  C6: constructing a raise statement (of either kind) fails with an assertion error
  exactly when the exception type is absent, or the traceback is present while the
  value is absent; this covers a value without a type and a traceback without a
  value.  Every node that the constructor returns stores the four children it was
  given and satisfies the progressive-nesting invariant.
\<close>

theorem StatementRaiseException_init_progressive_nesting:
  "(StatementRaiseException_new k exception_type exception_value exception_trace
      exception_cause source_ref w = Inl AssertionError)
   = (exception_type = VNone \<or> (exception_value = VNone \<and> exception_trace \<noteq> VNone))
   \<and> (\<forall>node w'.
        StatementRaiseException_new k exception_type exception_value exception_trace
          exception_cause source_ref w = Inr (node, w') \<longrightarrow>
        progressive_nesting w' node
        \<and> getattr node ''subnode_exception_type'' w' = Inr exception_type
        \<and> getattr node ''subnode_exception_value'' w' = Inr exception_value
        \<and> getattr node ''subnode_exception_trace'' w' = Inr exception_trace
        \<and> getattr node ''subnode_exception_cause'' w' = Inr exception_cause)"
proof (intro conjI allI impI)
  show "(StatementRaiseException_new k exception_type exception_value exception_trace
      exception_cause source_ref w = Inl AssertionError)
   = (exception_type = VNone \<or> (exception_value = VNone \<and> exception_trace \<noteq> VNone))"
    by (rule StatementRaiseException_new_AssertionError)
next
  fix node w'
  assume a: "StatementRaiseException_new k exception_type exception_value exception_trace
          exception_cause source_ref w = Inr (node, w')"
  note i = StatementRaiseException_init_children [OF StatementRaiseException_new_Inr(2) [OF a]]
  show "getattr node ''subnode_exception_type'' w' = Inr exception_type" by (rule i)
  show "getattr node ''subnode_exception_value'' w' = Inr exception_value" by (rule i)
  show "getattr node ''subnode_exception_trace'' w' = Inr exception_trace" by (rule i)
  show "getattr node ''subnode_exception_cause'' w' = Inr exception_cause" by (rule i)
  from i show "progressive_nesting w' node" by (simp add: progressive_nesting_def)
qed

lemma raise_arguments_construction:
  "\<exists>w'. StatementRaiseException_new ''STATEMENT_RAISE_EXCEPTION'' (VRef 0) (VRef 1) VNone VNone
          (VStr ''f.py:1'') raise_arguments_world = Inr (VRef 2, w')"
  by (simp add: StatementRaiseException_new_def new_object_def
      StatementRaiseException_init_def StatementChildrenHavingBase_init_def NodeBase_init_def
      set_child_def setattr_def lookup_def raise_arguments_world_def)

theorem StatementRaiseException_init_progressive_nesting_witness:
  "(\<exists>w'. StatementRaiseException (VRef 0) (VRef 1) VNone VNone (VStr ''f.py:1'')
           raise_arguments_world = Inr (VRef 2, w') \<and> progressive_nesting w' (VRef 2))
   \<and> StatementRaiseException VNone (VRef 1) VNone VNone (VStr ''f.py:1'')
           raise_arguments_world = Inl AssertionError
   \<and> StatementRaiseException (VRef 0) VNone (VRef 1) VNone (VStr ''f.py:1'')
           raise_arguments_world = Inl AssertionError"
proof -
  obtain w' where h: "StatementRaiseException_new ''STATEMENT_RAISE_EXCEPTION'' (VRef 0)
      (VRef 1) VNone VNone (VStr ''f.py:1'') raise_arguments_world = Inr (VRef 2, w')"
    using raise_arguments_construction by auto
  show ?thesis
    using h
      StatementRaiseException_init_progressive_nesting
        [of "''STATEMENT_RAISE_EXCEPTION''" "VRef 0" "VRef 1" VNone VNone "VStr ''f.py:1''"
            raise_arguments_world]
      StatementRaiseException_init_progressive_nesting
        [of "''STATEMENT_RAISE_EXCEPTION''" VNone "VRef 1" VNone VNone "VStr ''f.py:1''"
            raise_arguments_world]
      StatementRaiseException_init_progressive_nesting
        [of "''STATEMENT_RAISE_EXCEPTION''" "VRef 0" VNone "VRef 1" VNone "VStr ''f.py:1''"
            raise_arguments_world]
    by (simp add: StatementRaiseException_def)
qed

text \<open>
  The paths of \<^verbatim>\<open>StatementRaiseException.computeStatement\<close>, for all collaborators:
  when the type, the value or the traceback is the first child that is certain to
  raise, the replacement is made from the children computed so far; when no child is
  certain to raise, the node itself is returned.
\<close>

lemma StatementRaiseException_computeStatement_type:
  assumes "getattr (VRef self) ''subnode_exception_type'' w = Inr t0"
    and "onExpression env t0 True w = Inr (exception_type, w1)"
    and "exception_type \<noteq> VNone"
    and "willRaiseAnyException env (onExceptionRaiseExit BaseException w1) exception_type"
  shows "StatementRaiseException_computeStatement env self w =
           andThen (makeStatementExpressionOnlyReplacementNode env exception_type (VRef self)
                      (onExceptionRaiseExit BaseException w1))
             (\<lambda>(result, w3).
                Inr ((result, Some ''new_raise'',
                      Some ''Explicit raise already raises implicitly building exception type.''),
                     w3))"
  using assms by (simp add: StatementRaiseException_computeStatement_def Let_def)

lemma StatementRaiseException_computeStatement_value:
  assumes "getattr (VRef self) ''subnode_exception_type'' w = Inr t0"
    and "onExpression env t0 True w = Inr (exception_type, w1)"
    and "\<not> (exception_type \<noteq> VNone
            \<and> willRaiseAnyException env (onExceptionRaiseExit BaseException w1) exception_type)"
    and "getattr (VRef self) ''subnode_exception_value'' (onExceptionRaiseExit BaseException w1)
           = Inr v0"
    and "onExpression env v0 True (onExceptionRaiseExit BaseException w1)
           = Inr (exception_value, w3)"
    and "exception_value \<noteq> VNone" and "willRaiseAnyException env w3 exception_value"
  shows "StatementRaiseException_computeStatement env self w =
           andThen (makeStatementOnlyNodesFromExpressions env
                      [exception_type, exception_value] w3)
             (\<lambda>(result, w4).
                Inr ((result, Some ''new_raise'',
                      Some ''Explicit raise already raises implicitly building exception value.''),
                     w4))"
  using assms
  by (cases "exception_type = VNone")
    (simp_all add: StatementRaiseException_computeStatement_def Let_def)

lemma StatementRaiseException_computeStatement_trace:
  assumes "getattr (VRef self) ''subnode_exception_type'' w = Inr t0"
    and "onExpression env t0 True w = Inr (exception_type, w1)"
    and "\<not> (exception_type \<noteq> VNone
            \<and> willRaiseAnyException env (onExceptionRaiseExit BaseException w1) exception_type)"
    and "getattr (VRef self) ''subnode_exception_value'' (onExceptionRaiseExit BaseException w1)
           = Inr v0"
    and "onExpression env v0 True (onExceptionRaiseExit BaseException w1)
           = Inr (exception_value, w3)"
    and "\<not> (exception_value \<noteq> VNone \<and> willRaiseAnyException env w3 exception_value)"
    and "getattr (VRef self) ''subnode_exception_trace'' w3 = Inr tr0"
    and "onExpression env tr0 True w3 = Inr (exception_trace, w4)"
    and "exception_trace \<noteq> VNone" and "willRaiseAnyException env w4 exception_trace"
  shows "StatementRaiseException_computeStatement env self w =
           andThen (makeStatementOnlyNodesFromExpressions env
                      [exception_type, exception_value, exception_trace] w4)
             (\<lambda>(result, w5).
                Inr ((result, Some ''new_raise'',
                      Some ''Explicit raise already raises implicitly building exception traceback.''),
                     w5))"
  using assms
  by (cases "exception_type = VNone"; cases "exception_value = VNone")
    (simp_all add: StatementRaiseException_computeStatement_def Let_def)

lemma StatementRaiseException_computeStatement_no_raise:
  assumes "getattr (VRef self) ''subnode_exception_type'' w = Inr t0"
    and "onExpression env t0 True w = Inr (exception_type, w1)"
    and "\<not> (exception_type \<noteq> VNone
            \<and> willRaiseAnyException env (onExceptionRaiseExit BaseException w1) exception_type)"
    and "getattr (VRef self) ''subnode_exception_value'' (onExceptionRaiseExit BaseException w1)
           = Inr v0"
    and "onExpression env v0 True (onExceptionRaiseExit BaseException w1)
           = Inr (exception_value, w3)"
    and "\<not> (exception_value \<noteq> VNone \<and> willRaiseAnyException env w3 exception_value)"
    and "getattr (VRef self) ''subnode_exception_trace'' w3 = Inr tr0"
    and "onExpression env tr0 True w3 = Inr (exception_trace, w4)"
    and "\<not> (exception_trace \<noteq> VNone \<and> willRaiseAnyException env w4 exception_trace)"
    and "getattr (VRef self) ''subnode_exception_cause'' w4 = Inr c0"
    and "onExpression env c0 True w4 = Inr (exception_cause, w5)"
    and "\<not> (exception_cause \<noteq> VNone \<and> willRaiseAnyException env w5 exception_cause)"
  shows "StatementRaiseException_computeStatement env self w =
           Inr ((VRef self, None, None), w5)"
  using assms
  by (cases "exception_type = VNone"; cases "exception_value = VNone";
      cases "exception_trace = VNone"; cases "exception_cause = VNone")
    (simp_all add: StatementRaiseException_computeStatement_def Let_def)

text \<open>
  For all collaborators: when the cause is the first child that is certain to raise,
  the replacement is made from the computed type and the computed cause.
\<close>

lemma StatementRaiseException_computeStatement_cause:
  assumes "getattr (VRef self) ''subnode_exception_type'' w = Inr t0"
    and "onExpression env t0 True w = Inr (exception_type, w1)"
    and "\<not> (exception_type \<noteq> VNone
            \<and> willRaiseAnyException env (onExceptionRaiseExit BaseException w1) exception_type)"
    and "getattr (VRef self) ''subnode_exception_value'' (onExceptionRaiseExit BaseException w1)
           = Inr v0"
    and "onExpression env v0 True (onExceptionRaiseExit BaseException w1)
           = Inr (exception_value, w3)"
    and "\<not> (exception_value \<noteq> VNone \<and> willRaiseAnyException env w3 exception_value)"
    and "getattr (VRef self) ''subnode_exception_trace'' w3 = Inr tr0"
    and "onExpression env tr0 True w3 = Inr (exception_trace, w4)"
    and "\<not> (exception_trace \<noteq> VNone \<and> willRaiseAnyException env w4 exception_trace)"
    and "getattr (VRef self) ''subnode_exception_cause'' w4 = Inr c0"
    and "onExpression env c0 True w4 = Inr (exception_cause, w5)"
    and "exception_cause \<noteq> VNone" and "willRaiseAnyException env w5 exception_cause"
  shows "StatementRaiseException_computeStatement env self w =
           andThen (makeStatementOnlyNodesFromExpressions env
                      [exception_type, exception_cause] w5)
             (\<lambda>(result, w6).
                Inr ((result, Some ''new_raise'',
                      Some (CHR 0x0A #
                            ''Explicit raise already raises implicitly building exception cause.'')),
                     w6))"
  using assms
  by (cases "exception_type = VNone"; cases "exception_value = VNone";
      cases "exception_trace = VNone")
    (simp_all add: StatementRaiseException_computeStatement_def Let_def)

text \<open>
  C1, at a raise statement with type, value and cause whose cause is certain to raise:
  \<^verbatim>\<open>computeStatement\<close> returns, with the tag \<^verbatim>\<open>new_raise\<close>, a sequence that evaluates the
  type and the cause only.  The value, which has been computed before the cause, is
  not part of the replacement.
\<close>

theorem StatementRaiseException_computeStatement_cause_drops_value:
  "case StatementRaiseException_computeStatement example_collaborators 3
          raise_with_cause_world of
     Inr ((result, change_tags, change_desc), w') \<Rightarrow>
       change_tags = Some ''new_raise''
       \<and> sequence_expressions result w' = Inr [VRef 0, VRef 2]
   | Inl e \<Rightarrow> False"
  by (simp add: StatementRaiseException_computeStatement_def example_collaborators_def
      ExpressionRaiseException_computeExpression_def
      onExpression_def onExceptionRaiseExit_def kind_of_def getattr_def lookup_def
      raise_with_cause_world_def statement_only_nodes_eval BaseException_def
      empty_trace_collection_def)


subsection \<open>Raise expressions\<close>

lemma set_child_succeeds:
  assumes "s < length (heap w)" and "node_or_none w v"
  shows "\<exists>w'. set_child Map.empty (VRef s) name v w = Inr w'
            \<and> length (heap w') = length (heap w)
            \<and> (\<forall>u. kind_of w' u = kind_of w u)"
proof (cases v)
  case VNone
  from setattr_valid [OF assms(1)] obtain w' where
    s: "setattr (VRef s) (''subnode_'' @ name) VNone w = Inr w'" by blast
  with VNone length_heap_setattr [OF s] kind_of_setattr [OF s] show ?thesis
    by (simp add: set_child_def)
next
  case (VRef a)
  with assms(2) have a: "a < length (heap w)" by (simp add: node_or_none_def)
  from setattr_valid [OF a] obtain w1 where
    p: "setattr (VRef a) ''parent'' (VRef s) w = Inr w1" by blast
  from assms(1) length_heap_setattr [OF p] have "s < length (heap w1)" by simp
  from setattr_valid [OF this] obtain w' where
    s: "setattr (VRef s) (''subnode_'' @ name) (VRef a) w1 = Inr w'" by blast
  from VRef p s length_heap_setattr [OF p] length_heap_setattr [OF s]
    kind_of_setattr [OF p] kind_of_setattr [OF s]
  show ?thesis by (simp add: set_child_def)
qed (use assms(2) in \<open>simp_all add: node_or_none_def\<close>)

lemma NodeBase_init_succeeds:
  assumes "s < length (heap w)"
  shows "\<exists>w'. NodeBase_init (VRef s) r w = Inr w'
            \<and> length (heap w') = length (heap w)
            \<and> (\<forall>u. kind_of w' u = kind_of w u)"
proof -
  from setattr_valid [OF assms] obtain w1 where
    p: "setattr (VRef s) ''parent'' VNone w = Inr w1" by blast
  from assms length_heap_setattr [OF p] have "s < length (heap w1)" by simp
  from setattr_valid [OF this] obtain w' where
    s: "setattr (VRef s) ''source_ref'' r w1 = Inr w'" by blast
  from p s length_heap_setattr [OF p] length_heap_setattr [OF s]
    kind_of_setattr [OF p] kind_of_setattr [OF s]
  show ?thesis by (simp add: NodeBase_init_def)
qed

lemma node_or_none_mono:
  "node_or_none w v \<Longrightarrow> length (heap w) \<le> length (heap w') \<Longrightarrow> node_or_none w' v"
  by (auto simp: node_or_none_def split: val.splits)

lemma StatementRaiseException_new_succeeds:
  assumes "t \<noteq> VNone" and "v = VNone \<longrightarrow> tr = VNone"
    and "node_or_none w t" and "node_or_none w v" and "node_or_none w tr"
    and "node_or_none w c"
  shows "\<exists>w'. StatementRaiseException_new k t v tr c r w = Inr (VRef (length (heap w)), w')
            \<and> kind_of w' (VRef (length (heap w))) = k"
proof -
  let ?n = "length (heap w)"
  let ?w0 = "w\<lparr>heap := heap w @ [\<lparr>kind = k, attrs = Map.empty\<rparr>]\<rparr>"
  have n: "?n < length (heap ?w0)" by simp
  have k0: "kind_of ?w0 (VRef ?n) = k" by (simp add: kind_of_def lookup_def)
  from NodeBase_init_succeeds [OF n] obtain w1 where
    1: "NodeBase_init (VRef ?n) r ?w0 = Inr w1" "length (heap w1) = length (heap ?w0)"
       "\<forall>u. kind_of w1 u = kind_of ?w0 u" by blast
  from 1(2) have n1: "?n < length (heap w1)" by simp
  from assms(3) 1(2) have "node_or_none w1 t" by (auto intro: node_or_none_mono)
  from set_child_succeeds [OF n1 this] obtain w2 where
    2: "set_child Map.empty (VRef ?n) ''exception_type'' t w1 = Inr w2"
       "length (heap w2) = length (heap w1)" "\<forall>u. kind_of w2 u = kind_of w1 u" by blast
  from 2(2) n1 have n2: "?n < length (heap w2)" by simp
  from assms(4) 1(2) 2(2) have "node_or_none w2 v" by (auto intro: node_or_none_mono)
  from set_child_succeeds [OF n2 this] obtain w3 where
    3: "set_child Map.empty (VRef ?n) ''exception_value'' v w2 = Inr w3"
       "length (heap w3) = length (heap w2)" "\<forall>u. kind_of w3 u = kind_of w2 u" by blast
  from 3(2) n2 have n3: "?n < length (heap w3)" by simp
  from assms(5) 1(2) 2(2) 3(2) have "node_or_none w3 tr" by (auto intro: node_or_none_mono)
  from set_child_succeeds [OF n3 this] obtain w4 where
    4: "set_child Map.empty (VRef ?n) ''exception_trace'' tr w3 = Inr w4"
       "length (heap w4) = length (heap w3)" "\<forall>u. kind_of w4 u = kind_of w3 u" by blast
  from 4(2) n3 have n4: "?n < length (heap w4)" by simp
  from assms(6) 1(2) 2(2) 3(2) 4(2) have "node_or_none w4 c"
    by (auto intro: node_or_none_mono)
  from set_child_succeeds [OF n4 this] obtain w5 where
    5: "set_child Map.empty (VRef ?n) ''exception_cause'' c w4 = Inr w5"
       "length (heap w5) = length (heap w4)" "\<forall>u. kind_of w5 u = kind_of w4 u" by blast
  from 5(2) n4 have n5: "?n < length (heap w5)" by simp
  from setattr_valid [OF n5] obtain w' where
    6: "setattr (VRef ?n) ''reraise_finally'' (VBool False) w5 = Inr w'" by blast
  have "StatementRaiseException_new k t v tr c r w = Inr (VRef ?n, w')"
    using assms(1,2) 1(1) 2(1) 3(1) 4(1) 5(1) 6
    by (simp add: StatementRaiseException_new_def new_object_def
        StatementRaiseException_init_def StatementChildrenHavingBase_init_def)
  moreover have "kind_of w' (VRef ?n) = k"
    using k0 1(3) 2(3) 3(3) 4(3) 5(3) kind_of_setattr [OF 6] by simp
  ultimately show ?thesis by blast
qed

lemma getattr_present_StatementRaiseException_new:
  assumes "StatementRaiseException_new k t v tr c r w = Inr (node, w')"
    and "getattr u m w = Inr y"
  shows "\<exists>y'. getattr u m w' = Inr y'"
proof -
  let ?w0 = "snd (new_object k w)"
  from assms(1) obtain w1 where
    a: "StatementChildrenHavingBase_init Map.empty node
          [(''exception_type'', t), (''exception_value'', v),
           (''exception_trace'', tr), (''exception_cause'', c)] r ?w0 = Inr w1"
    and b: "setattr node ''reraise_finally'' (VBool False) w1 = Inr w'"
    by (auto simp: StatementRaiseException_new_def StatementRaiseException_init_def
        new_object_def andThen_Inr_iff split: if_splits)
  from getattr_present_StatementChildrenHavingBase_init [OF a getattr_new_object [OF assms(2)]]
  obtain y1 where "getattr u m w1 = Inr y1" by blast
  from getattr_present_setattr [OF b this] show ?thesis .
qed

lemma delattr_present:
  "getattr u m w = Inr y \<Longrightarrow> \<exists>w'. delattr u m w = Inr w'"
  by (auto simp: getattr_def delattr_def split: val.splits option.splits)

lemma getattr_delattr:
  assumes "delattr v n w = Inr w'"
  shows "getattr u m w' = (if u = v \<and> m = n then Inl (AttributeError n) else getattr u m w)"
  using assms
  by (auto simp: delattr_def getattr_def lookup_def nth_list_update
      split: val.splits option.splits if_splits)

lemma kind_of_delattr: "delattr v n w = Inr w' \<Longrightarrow> kind_of w' u = kind_of w u"
  by (auto simp: delattr_def lookup_def kind_of_def nth_list_update
      split: val.splits option.splits if_splits)

lemma getattr_valid: "getattr (VRef a) m w = Inr y \<Longrightarrow> a < length (heap w)"
  by (auto simp: getattr_def lookup_def split: option.splits if_splits)


text \<open>
  C7: for every raise expression with its two children, a source reference and a
  parent, \<^verbatim>\<open>computeExpressionDrop\<close> returns, with the tag \<^verbatim>\<open>new_raise\<close>, a new
  \<^verbatim>\<open>StatementRaiseExceptionImplicit\<close> whose type and value children are the very nodes
  that were the children of the expression, and whose traceback and cause are absent;
  afterwards the expression has no \<^verbatim>\<open>parent\<close> attribute.
\<close>

theorem ExpressionRaiseException_computeExpressionDrop_demotes:
  assumes t: "getattr (VRef self) ''subnode_exception_type'' w = Inr (VRef t)"
    and v: "getattr (VRef self) ''subnode_exception_value'' w = Inr (VRef v)"
    and r: "getattr (VRef self) ''source_ref'' w = Inr r"
    and p: "getattr (VRef self) ''parent'' w = Inr p"
    and tv: "t < length (heap w)" "v < length (heap w)"
  shows "\<exists>w'. ExpressionRaiseException_computeExpressionDrop self statement w =
            Inr ((VRef (length (heap w)), Some ''new_raise'',
                  Some ''Propagated implicit raise expression to raise statement.''), w')
          \<and> kind_of w' (VRef (length (heap w))) = ''STATEMENT_RAISE_EXCEPTION_IMPLICIT''
          \<and> getattr (VRef (length (heap w))) ''subnode_exception_type'' w' = Inr (VRef t)
          \<and> getattr (VRef (length (heap w))) ''subnode_exception_value'' w' = Inr (VRef v)
          \<and> getattr (VRef (length (heap w))) ''subnode_exception_trace'' w' = Inr VNone
          \<and> getattr (VRef (length (heap w))) ''subnode_exception_cause'' w' = Inr VNone
          \<and> getattr (VRef self) ''parent'' w' = Inl (AttributeError ''parent'')"
proof -
  let ?n = "VRef (length (heap w))"
  let ?k = "''STATEMENT_RAISE_EXCEPTION_IMPLICIT''"
  from tv have "node_or_none w (VRef t)" "node_or_none w (VRef v)" "node_or_none w VNone"
    by (simp_all add: node_or_none_def)
  from StatementRaiseException_new_succeeds [OF _ _ this(1,2,3,3), of ?k r]
  obtain w1 where
    n: "StatementRaiseException_new ?k (VRef t) (VRef v) VNone VNone r w = Inr (?n, w1)"
    and k: "kind_of w1 ?n = ?k" by auto
  note c = StatementRaiseException_init_children [OF StatementRaiseException_new_Inr(2) [OF n]]
  from getattr_present_StatementRaiseException_new [OF n p] obtain p1 where
    "getattr (VRef self) ''parent'' w1 = Inr p1" by blast
  from delattr_present [OF this] obtain w2 where
    d: "delattr (VRef self) ''parent'' w1 = Inr w2" by blast
  have "ExpressionRaiseException_computeExpressionDrop self statement w =
            Inr ((?n, Some ''new_raise'',
                  Some ''Propagated implicit raise expression to raise statement.''), w2)"
    using t v r n d
    by (simp add: ExpressionRaiseException_computeExpressionDrop_def
        ExpressionRaiseException_asStatement_def StatementRaiseExceptionImplicit_def)
  moreover have "kind_of w2 ?n = ?k"
    using k kind_of_delattr [OF d] by simp
  moreover have "getattr ?n ''subnode_exception_type'' w2 = Inr (VRef t)"
    "getattr ?n ''subnode_exception_value'' w2 = Inr (VRef v)"
    "getattr ?n ''subnode_exception_trace'' w2 = Inr VNone"
    "getattr ?n ''subnode_exception_cause'' w2 = Inr VNone"
    "getattr (VRef self) ''parent'' w2 = Inl (AttributeError ''parent'')"
    using c by (simp_all add: getattr_delattr [OF d])
  ultimately show ?thesis by blast
qed

theorem ExpressionRaiseException_computeExpressionDrop_demotes_witness:
  "\<exists>w'. ExpressionRaiseException_computeExpressionDrop 2 (VRef 3) raise_expression_world =
           Inr ((VRef 4, Some ''new_raise'',
                 Some ''Propagated implicit raise expression to raise statement.''), w')
        \<and> kind_of w' (VRef 4) = ''STATEMENT_RAISE_EXCEPTION_IMPLICIT''
        \<and> getattr (VRef 4) ''subnode_exception_type'' w' = Inr (VRef 0)
        \<and> getattr (VRef 4) ''subnode_exception_value'' w' = Inr (VRef 1)
        \<and> getattr (VRef 2) ''parent'' w' = Inl (AttributeError ''parent'')"
proof -
  have l: "length (heap raise_expression_world) = 4"
    by (simp add: raise_expression_world_def)
  have h: "getattr (VRef 2) ''subnode_exception_type'' raise_expression_world = Inr (VRef 0)"
    "getattr (VRef 2) ''subnode_exception_value'' raise_expression_world = Inr (VRef 1)"
    "getattr (VRef 2) ''source_ref'' raise_expression_world = Inr (VStr ''f.py:3'')"
    "getattr (VRef 2) ''parent'' raise_expression_world = Inr (VRef 3)"
    "0 < length (heap raise_expression_world)"
    "1 < length (heap raise_expression_world)"
    by (simp_all add: getattr_def lookup_def raise_expression_world_def)
  from ExpressionRaiseException_computeExpressionDrop_demotes [OF h, of "VRef 3"]
  show ?thesis unfolding l by blast
qed

subsection \<open>Re-raise\<close>

text \<open>
  C8: for every StatementReraiseException node, computeStatement records an exception
  exit with the class BaseException on the trace collection, changes nothing else, and
  returns the node itself with no change tag and no description: the node is never
  replaced.
\<close>

theorem StatementReraiseException_computeStatement_unchanged:
  "StatementReraiseException_computeStatement self w =
     Inr ((VRef self, None, None),
          w\<lparr>tc := (tc w)\<lparr>exception_exits := exception_exits (tc w) @ [BaseException]\<rparr>\<rparr>)"
  by (simp add: StatementReraiseException_computeStatement_def onExceptionRaiseExit_def)

subsection \<open>Exception-making expressions\<close>

lemma args_mayRaiseException_iff:
  "args_mayRaiseException env w args c \<longleftrightarrow> (\<exists>arg\<in>set args. mayRaiseException env w arg c)"
  by (induction args) auto

text \<open>
  C9: for an exception-making node of either class with the argument tuple
  \<^verbatim>\<open>subnode_args\<close>, \<^verbatim>\<open>mayRaiseException(c)\<close> is true if and only if
  \<^verbatim>\<open>mayRaiseException(c)\<close> of some element of the argument tuple is true, and
  \<^verbatim>\<open>computeExpression\<close> returns the node itself, with no change tag, and leaves the
  world as it is.  (Of the import-error node only the \<^verbatim>\<open>args\<close> children count, not
  \<^verbatim>\<open>name\<close> and \<^verbatim>\<open>path\<close>.)
\<close>

theorem MakeException_mayRaiseException_iff_args:
  assumes "getattr (VRef self) ''subnode_args'' w = Inr (VList args)"
  shows "ExpressionBuiltinMakeException_mayRaiseException env self c w =
           Inr (\<exists>arg\<in>set args. mayRaiseException env w arg c)
       \<and> ExpressionBuiltinMakeExceptionImportError_mayRaiseException env self c w =
           Inr (\<exists>arg\<in>set args. mayRaiseException env w arg c)
       \<and> ExpressionBuiltinMakeException_computeExpression self w =
           Inr ((VRef self, None, None), w)
       \<and> ExpressionBuiltinMakeExceptionImportError_computeExpression self w =
           Inr ((VRef self, None, None), w)"
  using assms
  by (simp add: ExpressionBuiltinMakeException_mayRaiseException_def
      ExpressionBuiltinMakeExceptionImportError_mayRaiseException_def
      ExpressionBuiltinMakeException_computeExpression_def
      ExpressionBuiltinMakeExceptionImportError_computeExpression_def
      args_mayRaiseException_iff)

theorem MakeException_mayRaiseException_iff_args_witness:
  "getattr (VRef 2) ''subnode_args'' make_exception_world = Inr (VList [VRef 0, VRef 1])
   \<and> ExpressionBuiltinMakeException_mayRaiseException example_collaborators 2 BaseException
       make_exception_world = Inr True
   \<and> ExpressionBuiltinMakeExceptionImportError_mayRaiseException example_collaborators 2
       BaseException make_exception_world = Inr True"
proof -
  have h: "getattr (VRef 2) ''subnode_args'' make_exception_world
             = Inr (VList [VRef 0, VRef 1])"
    by (simp add: getattr_def lookup_def make_exception_world_def)
  show ?thesis
    using h MakeException_mayRaiseException_iff_args
              [OF h, of example_collaborators BaseException]
    by (simp add: example_collaborators_def kind_of_def lookup_def make_exception_world_def)
qed

subsection \<open>The exec statement\<close>

lemma set_child_checked_None:
  assumes "isExpressionConstantNoneRef w v" and "n = ''globals_arg'' \<or> n = ''locals_arg''"
  shows "set_child StatementExec_checkers self n v w
           = set_child StatementExec_checkers self n VNone w"
  using assms
  by (auto simp: set_child_def StatementExec_checkers_def convertNoneConstantToNone_def)

lemma StatementExec_unfold:
  "StatementExec s g l r w =
     andThen (NodeBase_init (VRef (length (heap w))) r (snd (new_object ''STATEMENT_EXEC'' w)))
       (\<lambda>w1. andThen (set_child StatementExec_checkers (VRef (length (heap w))) ''globals_arg'' g w1)
       (\<lambda>w2. andThen (set_child StatementExec_checkers (VRef (length (heap w))) ''locals_arg'' l w2)
       (\<lambda>w3. andThen (set_child StatementExec_checkers (VRef (length (heap w))) ''source'' s w3)
       (\<lambda>w4. Inr (VRef (length (heap w)), w4)))))"
  by (simp add: StatementExec_def StatementExec_init_def StatementChildrenHavingBase_init_def
      new_object_def andThen_def split: sum.splits)

lemma StatementExec_globals_None:
  assumes "isExpressionConstantNoneRef w g"
  shows "StatementExec s g l r w = StatementExec s VNone l r w"
proof -
  let ?self = "VRef (length (heap w))"
  let ?w0 = "snd (new_object ''STATEMENT_EXEC'' w)"
  show ?thesis
  proof (cases "NodeBase_init ?self r ?w0")
    case (Inl e)
    then show ?thesis by (simp add: StatementExec_unfold)
  next
    case (Inr w1)
    from assms have "isExpressionConstantNoneRef w1 g"
      by (simp add: isExpressionConstantNoneRef_kind_of kind_of_NodeBase_init [OF Inr]
          kind_of_new_object)
    from set_child_checked_None [OF this, of "''globals_arg''" ?self] Inr
    show ?thesis by (simp add: StatementExec_unfold)
  qed
qed

lemma StatementExec_locals_None:
  assumes "isExpressionConstantNoneRef w l"
  shows "StatementExec s g l r w = StatementExec s g VNone r w"
proof -
  let ?self = "VRef (length (heap w))"
  let ?w0 = "snd (new_object ''STATEMENT_EXEC'' w)"
  show ?thesis
  proof (cases "NodeBase_init ?self r ?w0")
    case (Inl e)
    then show ?thesis by (simp add: StatementExec_unfold)
  next
    case n: (Inr w1)
    show ?thesis
    proof (cases "set_child StatementExec_checkers ?self ''globals_arg'' g w1")
      case (Inl e)
      with n show ?thesis by (simp add: StatementExec_unfold)
    next
      case (Inr w2)
      from assms have "isExpressionConstantNoneRef w2 l"
        by (simp add: isExpressionConstantNoneRef_kind_of kind_of_NodeBase_init [OF n]
            kind_of_set_child [OF Inr] kind_of_new_object)
      from set_child_checked_None [OF this, of "''locals_arg''" ?self] n Inr
      show ?thesis by (simp add: StatementExec_unfold)
    qed
  qed
qed

lemma StatementExec_children:
  assumes "StatementExec s VNone VNone r w = Inr (node, w')"
  shows "getattr node ''subnode_globals_arg'' w' = Inr VNone"
    and "getattr node ''subnode_locals_arg'' w' = Inr VNone"
    and "getattr node ''subnode_source'' w' = Inr s"
proof -
  let ?self = "VRef (length (heap w))"
  from assms obtain w1 w2 w3 where
    n: "NodeBase_init ?self r (snd (new_object ''STATEMENT_EXEC'' w)) = Inr w1"
    and c1: "set_child StatementExec_checkers ?self ''globals_arg'' VNone w1 = Inr w2"
    and c2: "set_child StatementExec_checkers ?self ''locals_arg'' VNone w2 = Inr w3"
    and c3: "set_child StatementExec_checkers ?self ''source'' s w3 = Inr w'"
    and e: "node = ?self"
    by (auto simp: StatementExec_unfold andThen_Inr_iff)
  note g = getattr_set_child [OF c3] getattr_set_child [OF c2] getattr_set_child [OF c1]
  show "getattr node ''subnode_globals_arg'' w' = Inr VNone"
    by (simp add: g e StatementExec_checkers_def convertNoneConstantToNone_def)
  show "getattr node ''subnode_locals_arg'' w' = Inr VNone"
    by (simp add: g e StatementExec_checkers_def convertNoneConstantToNone_def)
  show "getattr node ''subnode_source'' w' = Inr s"
    by (simp add: g e StatementExec_checkers_def)
qed

text \<open>
  C5: a constant-\<^verbatim>\<open>None\<close> literal given to the constructor of \<^verbatim>\<open>StatementExec\<close> as
  \<^verbatim>\<open>globals_arg\<close> or as \<^verbatim>\<open>locals_arg\<close> gives the same node and the same world as giving
  no argument there; with both, the statement is the one built from the source alone,
  and its two optional children are absent.
\<close>

theorem StatementExec_None_constant_normalized:
  "(isExpressionConstantNoneRef w g \<longrightarrow>
      StatementExec s g l r w = StatementExec s VNone l r w)
   \<and> (isExpressionConstantNoneRef w l \<longrightarrow>
      StatementExec s g l r w = StatementExec s g VNone r w)
   \<and> (isExpressionConstantNoneRef w g \<and> isExpressionConstantNoneRef w l \<longrightarrow>
      StatementExec s g l r w = StatementExec s VNone VNone r w
      \<and> (\<forall>node w'. StatementExec s g l r w = Inr (node, w') \<longrightarrow>
            getattr node ''subnode_globals_arg'' w' = Inr VNone
            \<and> getattr node ''subnode_locals_arg'' w' = Inr VNone
            \<and> getattr node ''subnode_source'' w' = Inr s))"
proof (intro conjI impI allI)
  assume "isExpressionConstantNoneRef w g"
  then show "StatementExec s g l r w = StatementExec s VNone l r w"
    by (rule StatementExec_globals_None)
next
  assume "isExpressionConstantNoneRef w l"
  then show "StatementExec s g l r w = StatementExec s g VNone r w"
    by (rule StatementExec_locals_None)
next
  assume a: "isExpressionConstantNoneRef w g \<and> isExpressionConstantNoneRef w l"
  then show e: "StatementExec s g l r w = StatementExec s VNone VNone r w"
    by (simp add: StatementExec_globals_None StatementExec_locals_None)
  fix node w'
  assume "StatementExec s g l r w = Inr (node, w')"
  with e have n: "StatementExec s VNone VNone r w = Inr (node, w')" by simp
  show "getattr node ''subnode_globals_arg'' w' = Inr VNone"
    "getattr node ''subnode_locals_arg'' w' = Inr VNone"
    "getattr node ''subnode_source'' w' = Inr s"
    by (rule StatementExec_children [OF n])+
qed

lemma exec_arguments_construction:
  "\<exists>w'. StatementExec (VRef 0) VNone VNone (VStr ''f.py:5'') exec_arguments_world
          = Inr (VRef 3, w')"
  by (simp add: StatementExec_def new_object_def StatementExec_init_def
      StatementChildrenHavingBase_init_def NodeBase_init_def set_child_def
      StatementExec_checkers_def convertNoneConstantToNone_def
      setattr_def lookup_def exec_arguments_world_def)

theorem StatementExec_None_constant_normalized_witness:
  "isExpressionConstantNoneRef exec_arguments_world (VRef 1)
   \<and> isExpressionConstantNoneRef exec_arguments_world (VRef 2)
   \<and> StatementExec (VRef 0) (VRef 1) (VRef 2) (VStr ''f.py:5'') exec_arguments_world
       = StatementExec (VRef 0) VNone VNone (VStr ''f.py:5'') exec_arguments_world
   \<and> (\<exists>w'. StatementExec (VRef 0) (VRef 1) (VRef 2) (VStr ''f.py:5'') exec_arguments_world
               = Inr (VRef 3, w')
            \<and> getattr (VRef 3) ''subnode_globals_arg'' w' = Inr VNone
            \<and> getattr (VRef 3) ''subnode_locals_arg'' w' = Inr VNone
            \<and> getattr (VRef 3) ''subnode_source'' w' = Inr (VRef 0))"
proof -
  let ?r = "VStr ''f.py:5''"
  have c: "isExpressionConstantNoneRef exec_arguments_world (VRef 1)"
    "isExpressionConstantNoneRef exec_arguments_world (VRef 2)"
    by (simp_all add: isExpressionConstantNoneRef_def lookup_def exec_arguments_world_def)
  note t = StatementExec_None_constant_normalized
    [of exec_arguments_world "VRef 1" "VRef 0" "VRef 2" ?r]
  from t c have e: "StatementExec (VRef 0) (VRef 1) (VRef 2) ?r exec_arguments_world
      = StatementExec (VRef 0) VNone VNone ?r exec_arguments_world"
    by blast
  obtain w' where "StatementExec (VRef 0) VNone VNone ?r exec_arguments_world
      = Inr (VRef 3, w')"
    using exec_arguments_construction by auto
  with e have h: "StatementExec (VRef 0) (VRef 1) (VRef 2) ?r exec_arguments_world
      = Inr (VRef 3, w')"
    by simp
  from t c h have "getattr (VRef 3) ''subnode_globals_arg'' w' = Inr VNone
      \<and> getattr (VRef 3) ''subnode_locals_arg'' w' = Inr VNone
      \<and> getattr (VRef 3) ''subnode_source'' w' = Inr (VRef 0)"
    by blast
  with c e h show ?thesis by blast
qed

lemma andThen_cong_rule: "(\<And>x. m = Inr x \<Longrightarrow> f x = g x) \<Longrightarrow> andThen m f = andThen m g"
  by (cases m) simp_all

lemma StatementExec_computeStatement_alt:
  "StatementExec_computeStatement env self w =
     andThen (getattr (VRef self) ''subnode_source'' w) (\<lambda>s0.
     andThen (onExpression env s0 False w) (\<lambda>(source_code, w1).
     if source_code = VNone then Inl (AttributeError ''mayRaiseException'') else
     if willRaiseAnyException env (possible_exit env source_code w1) source_code then
       Inr ((source_code, Some ''new_raise'',
             Some ''Exec statement raises implicitly when determining source code argument.''),
            possible_exit env source_code w1)
     else
     andThen (getattr (VRef self) ''subnode_globals_arg'' (possible_exit env source_code w1)) (\<lambda>g0.
     andThen (onExpression env g0 True (possible_exit env source_code w1)) (\<lambda>(globals_arg, w3).
     if globals_arg \<noteq> VNone
        \<and> willRaiseAnyException env (possible_exit env globals_arg w3) globals_arg then
       andThen (makeStatementOnlyNodesFromExpressions env [source_code, globals_arg]
                  (possible_exit env globals_arg w3))
         (\<lambda>(result, w5).
            Inr ((result, Some ''new_raise'',
                  Some ''Exec statement raises implicitly when determining globals argument.''),
                 w5))
     else
     andThen (getattr (VRef self) ''subnode_locals_arg'' (possible_exit env globals_arg w3)) (\<lambda>l0.
     andThen (onExpression env l0 True (possible_exit env globals_arg w3)) (\<lambda>(locals_arg, w5).
     if locals_arg \<noteq> VNone
        \<and> willRaiseAnyException env (possible_exit env locals_arg w5) locals_arg then
       andThen
         (makeStatementOnlyNodesFromExpressions env [source_code, globals_arg, locals_arg]
            (possible_exit env locals_arg w5))
         (\<lambda>(result, w7).
            Inr ((result, Some ''new_raise'',
                  Some ''Exec statement raises implicitly when determining locals argument.''),
                 w7))
     else
     andThen (getattr (VRef self) ''subnode_source''
                (onExceptionRaiseExit BaseException (possible_exit env locals_arg w5)))
       (\<lambda>subnode_source.
     if subnode_source = VNone then Inl (AttributeError ''getStrValue'')
     else Inr ((VRef self, None, None),
               onExceptionRaiseExit BaseException (possible_exit env locals_arg w5)))))))))"
proof -
  have p: "\<And>v w. v \<noteq> VNone \<Longrightarrow>
      (if mayRaiseException env w v BaseException
       then onExceptionRaiseExit BaseException w else w) = possible_exit env v w"
    by (simp add: possible_exit_def)
  have q: "\<And>v w.
      (if v \<noteq> VNone \<and> mayRaiseException env w v BaseException
       then onExceptionRaiseExit BaseException w else w) = possible_exit env v w"
    by (simp add: possible_exit_def)
  show ?thesis
    unfolding StatementExec_computeStatement_def Let_def q
    apply (rule andThen_cong_rule)+
    apply (simp add: p split del: if_split cong: if_cong)
    done
qed

text \<open>
  The paths of \<^verbatim>\<open>StatementExec.computeStatement\<close>, for all collaborators.  The children
  are computed in the order source, globals argument, locals argument, each in the
  world that the one before left.  A source that is certain to raise is itself the
  replacement; for the globals argument the helper gets the computed source and
  globals argument; for the locals argument it gets the computed source, globals
  argument and locals argument, also when the globals argument is absent.
\<close>

lemma exec_source:
  assumes "getattr (VRef self) ''subnode_source'' w = Inr s0"
    and "onExpression env s0 False w = Inr (source_code, w1)"
    and "source_code \<noteq> VNone"
    and "willRaiseAnyException env (possible_exit env source_code w1) source_code"
  shows "StatementExec_computeStatement env self w =
          Inr ((source_code, Some ''new_raise'',
                Some ''Exec statement raises implicitly when determining source code argument.''),
               possible_exit env source_code w1)"
  using assms by (simp add: StatementExec_computeStatement_alt)

lemma exec_globals:
  assumes "getattr (VRef self) ''subnode_source'' w = Inr s0"
    and "onExpression env s0 False w = Inr (source_code, w1)"
    and "source_code \<noteq> VNone"
    and "\<not> willRaiseAnyException env (possible_exit env source_code w1) source_code"
    and "getattr (VRef self) ''subnode_globals_arg'' (possible_exit env source_code w1) = Inr g0"
    and "onExpression env g0 True (possible_exit env source_code w1) = Inr (globals_arg, w3)"
    and "globals_arg \<noteq> VNone"
    and "willRaiseAnyException env (possible_exit env globals_arg w3) globals_arg"
  shows "StatementExec_computeStatement env self w =
           andThen (makeStatementOnlyNodesFromExpressions env [source_code, globals_arg]
                      (possible_exit env globals_arg w3))
             (\<lambda>(result, w5).
                Inr ((result, Some ''new_raise'',
                      Some ''Exec statement raises implicitly when determining globals argument.''),
                     w5))"
  using assms by (simp add: StatementExec_computeStatement_alt)

lemma exec_locals:
  assumes "getattr (VRef self) ''subnode_source'' w = Inr s0"
    and "onExpression env s0 False w = Inr (source_code, w1)"
    and "source_code \<noteq> VNone"
    and "\<not> willRaiseAnyException env (possible_exit env source_code w1) source_code"
    and "getattr (VRef self) ''subnode_globals_arg'' (possible_exit env source_code w1) = Inr g0"
    and "onExpression env g0 True (possible_exit env source_code w1) = Inr (globals_arg, w3)"
    and "\<not> (globals_arg \<noteq> VNone
            \<and> willRaiseAnyException env (possible_exit env globals_arg w3) globals_arg)"
    and "getattr (VRef self) ''subnode_locals_arg'' (possible_exit env globals_arg w3) = Inr l0"
    and "onExpression env l0 True (possible_exit env globals_arg w3) = Inr (locals_arg, w5)"
    and "locals_arg \<noteq> VNone"
    and "willRaiseAnyException env (possible_exit env locals_arg w5) locals_arg"
  shows "StatementExec_computeStatement env self w =
           andThen (makeStatementOnlyNodesFromExpressions env
                      [source_code, globals_arg, locals_arg]
                      (possible_exit env locals_arg w5))
             (\<lambda>(result, w7).
                Inr ((result, Some ''new_raise'',
                      Some ''Exec statement raises implicitly when determining locals argument.''),
                     w7))"
  using assms
  by (cases "globals_arg = VNone"; cases "locals_arg = VNone")
    (simp_all add: StatementExec_computeStatement_alt)

lemma exec_none:
  assumes "getattr (VRef self) ''subnode_source'' w = Inr s0"
    and "onExpression env s0 False w = Inr (source_code, w1)"
    and "source_code \<noteq> VNone"
    and "\<not> willRaiseAnyException env (possible_exit env source_code w1) source_code"
    and "getattr (VRef self) ''subnode_globals_arg'' (possible_exit env source_code w1) = Inr g0"
    and "onExpression env g0 True (possible_exit env source_code w1) = Inr (globals_arg, w3)"
    and "\<not> (globals_arg \<noteq> VNone
            \<and> willRaiseAnyException env (possible_exit env globals_arg w3) globals_arg)"
    and "getattr (VRef self) ''subnode_locals_arg'' (possible_exit env globals_arg w3) = Inr l0"
    and "onExpression env l0 True (possible_exit env globals_arg w3) = Inr (locals_arg, w5)"
    and "\<not> (locals_arg \<noteq> VNone
            \<and> willRaiseAnyException env (possible_exit env locals_arg w5) locals_arg)"
    and "getattr (VRef self) ''subnode_source''
           (onExceptionRaiseExit BaseException (possible_exit env locals_arg w5)) = Inr s2"
    and "s2 \<noteq> VNone"
  shows "StatementExec_computeStatement env self w =
           Inr ((VRef self, None, None),
                onExceptionRaiseExit BaseException (possible_exit env locals_arg w5))"
  using assms
  by (cases "globals_arg = VNone"; cases "locals_arg = VNone")
    (simp_all add: StatementExec_computeStatement_alt)

text \<open>
  C4, at an exec statement built by the constructor without globals argument and with
  a locals argument that is certain to raise: \<^verbatim>\<open>computeStatement\<close> hands the source,
  \<^verbatim>\<open>None\<close> and the locals argument to the statement-making helper, and the call ends
  with an attribute error; no replacement is returned.  With a globals argument
  present, the same branch returns the sequence of the three computed children.
\<close>

theorem StatementExec_computeStatement_absent_globals_fails:
  "(case StatementExec (VRef 0) VNone (VRef 2) (VStr ''f.py:4'') exec_locals_raise_world of
      Inr (node, w) \<Rightarrow>
        node = VRef 3
        \<and> getattr node ''subnode_globals_arg'' w = Inr VNone
        \<and> getattr node ''subnode_locals_arg'' w = Inr (VRef 2)
        \<and> StatementExec_computeStatement example_collaborators 3 w
            = Inl (AttributeError ''source_ref'')
    | Inl e \<Rightarrow> False)
   \<and> (case StatementExec (VRef 0) (VRef 1) (VRef 2) (VStr ''f.py:4'')
           exec_locals_raise_world of
      Inr (node, w) \<Rightarrow>
        node = VRef 3
        \<and> (case StatementExec_computeStatement example_collaborators 3 w of
             Inr ((result, change_tags, change_desc), w') \<Rightarrow>
               change_tags = Some ''new_raise''
               \<and> sequence_expressions result w' = Inr [VRef 0, VRef 1, VRef 2]
           | Inl e \<Rightarrow> False)
    | Inl e \<Rightarrow> False)"
  by (simp add: StatementExec_def StatementExec_init_def StatementExec_checkers_def
      convertNoneConstantToNone_def isExpressionConstantNoneRef_def
      StatementExec_computeStatement_def example_collaborators_def
      ExpressionRaiseException_computeExpression_def onExpression_def
      onExceptionRaiseExit_def kind_of_def getattr_def lookup_def
      exec_locals_raise_world_def statement_only_nodes_eval BaseException_def
      empty_trace_collection_def)

subsection \<open>The exec expression\<close>

text \<open>
  C2, at an \<^verbatim>\<open>ExpressionBuiltinExec\<close> built by its constructor, with the flag true and
  with the flag false, with and without globals and locals arguments: the constructor stores the flag in \<^verbatim>\<open>in_early_closure\<close>, and
  \<^verbatim>\<open>computeExpressionDrop\<close> reads \<^verbatim>\<open>early_closure\<close>, which the node does not have; the
  call ends with an attribute error, it neither returns a \<^verbatim>\<open>StatementExec\<close> nor the
  enclosing statement.
\<close>

theorem ExpressionBuiltinExec_computeExpressionDrop_attribute_error:
  "(case ExpressionBuiltinExec (VBool True) (VRef 0) (VRef 2) (VRef 3) (VStr ''f.py:7'')
           exec_expression_world of
      Inr (node, w) \<Rightarrow>
        node = VRef 4
        \<and> getattr node ''in_early_closure'' w = Inr (VBool True)
        \<and> ExpressionBuiltinExec_computeExpressionDrop 4 (VRef 1) w
            = Inl (AttributeError ''early_closure'')
    | Inl e \<Rightarrow> False)
   \<and> (case ExpressionBuiltinExec (VBool False) (VRef 0) (VRef 2) (VRef 3) (VStr ''f.py:7'')
           exec_expression_world of
      Inr (node, w) \<Rightarrow>
        node = VRef 4
        \<and> getattr node ''in_early_closure'' w = Inr (VBool False)
        \<and> ExpressionBuiltinExec_computeExpressionDrop 4 (VRef 1) w
            = Inl (AttributeError ''early_closure'')
    | Inl e \<Rightarrow> False)
   \<and> (case ExpressionBuiltinExec (VBool True) (VRef 0) VNone VNone (VStr ''f.py:7'')
           exec_expression_world of
      Inr (node, w) \<Rightarrow>
        node = VRef 4
        \<and> getattr node ''in_early_closure'' w = Inr (VBool True)
        \<and> ExpressionBuiltinExec_computeExpressionDrop 4 (VRef 1) w
            = Inl (AttributeError ''early_closure'')
    | Inl e \<Rightarrow> False)
   \<and> (case ExpressionBuiltinExec (VBool False) (VRef 0) VNone VNone (VStr ''f.py:7'')
           exec_expression_world of
      Inr (node, w) \<Rightarrow>
        node = VRef 4
        \<and> getattr node ''in_early_closure'' w = Inr (VBool False)
        \<and> ExpressionBuiltinExec_computeExpressionDrop 4 (VRef 1) w
            = Inl (AttributeError ''early_closure'')
    | Inl e \<Rightarrow> False)"
  by (simp add: ExpressionBuiltinExec_def ExpressionBuiltinExec_init_def new_object_def
      set_child_def NodeBase_init_def setattr_def getattr_def lookup_def Let_def
      ExpressionBuiltinExec_computeExpressionDrop_def exec_expression_world_def)

subsection \<open>Locals synchronisation\<close>

lemma tc_setattr: "setattr v n x w = Inr w' \<Longrightarrow> tc w' = tc w"
  by (auto simp: setattr_def lookup_def split: val.splits option.splits if_splits)

lemma getattr_removeAllKnowledge [simp]:
  "getattr u m (removeAllKnowledge w) = getattr u m w"
  by (cases u) (simp_all add: getattr_def removeAllKnowledge_def lookup_def)

lemma sync_module:
  assumes "computeStatementSubExpressions env self w = Inr ((VRef self, tags, desc), w1)"
    and "isCompiledPythonModule env w1 (getParentVariableProvider env w1 self)"
  shows "StatementLocalsDictSync_computeStatement env self w =
           Inr ((VNone, Some ''new_statements'',
                 Some ''Removed sync back to locals without locals.''), w1)"
  using assms by (simp add: StatementLocalsDictSync_computeStatement_def)

lemma sync_no_records:
  assumes "computeStatementSubExpressions env self w = Inr ((VRef self, tags, desc), w1)"
    and "\<not> isCompiledPythonModule env w1 (getParentVariableProvider env w1 self)"
    and sc: "getattr (VRef self) ''locals_scope'' w1 = Inr scope"
    and e: "\<not> truthy (onLocalsUsage env (tc w1) scope)"
  shows "\<exists>w2. StatementLocalsDictSync_computeStatement env self w =
           Inr ((VNone, Some ''new_statements'',
                 Some ''Removed sync back to locals without locals.''), w2)
         \<and> tc w2 = tc w1
         \<and> getattr (VRef self) ''previous_traces'' w2 = Inr (onLocalsUsage env (tc w1) scope)"
proof -
  let ?p = "onLocalsUsage env (tc w1) scope"
  from setattr_valid [OF getattr_valid [OF sc]] obtain w2 where
    s: "setattr (VRef self) ''previous_traces'' ?p w1 = Inr w2" by blast
  have g: "getattr (VRef self) ''previous_traces'' w2 = Inr ?p"
    by (simp add: getattr_setattr [OF s])
  from assms s g have "StatementLocalsDictSync_computeStatement env self w =
           Inr ((VNone, Some ''new_statements'',
                 Some ''Removed sync back to locals without locals.''), w2)"
    by (simp add: StatementLocalsDictSync_computeStatement_def)
  with g tc_setattr [OF s] show ?thesis by blast
qed

lemma sync_records:
  assumes "computeStatementSubExpressions env self w = Inr ((VRef self, tags, desc), w1)"
    and "\<not> isCompiledPythonModule env w1 (getParentVariableProvider env w1 self)"
    and sc: "getattr (VRef self) ''locals_scope'' w1 = Inr scope"
    and e: "truthy (onLocalsUsage env (tc w1) scope)"
  shows "\<exists>w4. StatementLocalsDictSync_computeStatement env self w =
           Inr ((VRef self, None, None), w4)
         \<and> tc w4 = (tc w1)\<lparr>knowledge := []\<rparr>
         \<and> getattr (VRef self) ''previous_traces'' w4 = Inr (onLocalsUsage env (tc w1) scope)
         \<and> getattr (VRef self) ''variable_traces'' w4
             = Inr (onLocalsUsage env ((tc w1)\<lparr>knowledge := []\<rparr>) scope)"
proof -
  let ?p = "onLocalsUsage env (tc w1) scope"
  from setattr_valid [OF getattr_valid [OF sc]] obtain w2 where
    s: "setattr (VRef self) ''previous_traces'' ?p w1 = Inr w2" by blast
  have g: "getattr (VRef self) ''previous_traces'' w2 = Inr ?p"
    by (simp add: getattr_setattr [OF s])
  let ?w3 = "removeAllKnowledge w2"
  have tc3: "tc ?w3 = (tc w1)\<lparr>knowledge := []\<rparr>"
    using tc_setattr [OF s] by (simp add: removeAllKnowledge_def)
  have sc3: "getattr (VRef self) ''locals_scope'' ?w3 = Inr scope"
    using sc by (simp add: getattr_setattr [OF s])
  from setattr_valid [OF getattr_valid [OF sc3]] obtain w4 where
    v: "setattr (VRef self) ''variable_traces'' (onLocalsUsage env (tc ?w3) scope) ?w3 = Inr w4"
    by blast
  have tc4: "tc w4 = (tc w1)\<lparr>knowledge := []\<rparr>"
    using tc_setattr [OF v] tc3 by simp
  from assms(1,2) sc s g e sc3 v
  have "StatementLocalsDictSync_computeStatement env self w = Inr ((VRef self, None, None), w4)"
    by (simp add: StatementLocalsDictSync_computeStatement_def Let_def)
  moreover have "getattr (VRef self) ''previous_traces'' w4 = Inr ?p"
    using g by (simp add: getattr_setattr [OF v])
  moreover have "getattr (VRef self) ''variable_traces'' w4
      = Inr (onLocalsUsage env ((tc w1)\<lparr>knowledge := []\<rparr>) scope)"
    using tc3 by (simp add: getattr_setattr [OF v])
  ultimately show ?thesis using tc4 by blast
qed

text \<open>
  C3: when the sub-expression pass of a \<^verbatim>\<open>StatementLocalsDictSync\<close> leaves the node in
  place, \<^verbatim>\<open>computeStatement\<close> deletes the node (replacement \<^verbatim>\<open>None\<close>, tag
  \<^verbatim>\<open>new_statements\<close>) if the parent variable provider is a compiled Python module.
  Otherwise it stores the answer of \<^verbatim>\<open>onLocalsUsage\<close> for its scope in
  \<^verbatim>\<open>previous_traces\<close>; if that answer is empty, it deletes the node and leaves the trace
  collection as it is.  Otherwise it removes all knowledge from the trace collection,
  stores in \<^verbatim>\<open>variable_traces\<close> the answer that \<^verbatim>\<open>onLocalsUsage\<close> gives for the trace
  collection without knowledge, and returns the node itself with no change tag.
\<close>

theorem StatementLocalsDictSync_computeStatement_cases:
  assumes sub: "computeStatementSubExpressions env self w = Inr ((VRef self, tags, desc), w1)"
  shows
    "(isCompiledPythonModule env w1 (getParentVariableProvider env w1 self) \<longrightarrow>
        StatementLocalsDictSync_computeStatement env self w =
          Inr ((VNone, Some ''new_statements'',
                Some ''Removed sync back to locals without locals.''), w1))
     \<and> (\<not> isCompiledPythonModule env w1 (getParentVariableProvider env w1 self) \<longrightarrow>
        (\<forall>scope. getattr (VRef self) ''locals_scope'' w1 = Inr scope \<longrightarrow>
           (\<not> truthy (onLocalsUsage env (tc w1) scope) \<longrightarrow>
              (\<exists>w2. StatementLocalsDictSync_computeStatement env self w =
                       Inr ((VNone, Some ''new_statements'',
                             Some ''Removed sync back to locals without locals.''), w2)
                   \<and> tc w2 = tc w1
                   \<and> getattr (VRef self) ''previous_traces'' w2
                       = Inr (onLocalsUsage env (tc w1) scope)))
           \<and> (truthy (onLocalsUsage env (tc w1) scope) \<longrightarrow>
              (\<exists>w4. StatementLocalsDictSync_computeStatement env self w =
                       Inr ((VRef self, None, None), w4)
                   \<and> tc w4 = (tc w1)\<lparr>knowledge := []\<rparr>
                   \<and> getattr (VRef self) ''previous_traces'' w4
                       = Inr (onLocalsUsage env (tc w1) scope)
                   \<and> getattr (VRef self) ''variable_traces'' w4
                       = Inr (onLocalsUsage env ((tc w1)\<lparr>knowledge := []\<rparr>) scope)))))"
proof (intro conjI impI allI)
  assume "isCompiledPythonModule env w1 (getParentVariableProvider env w1 self)"
  from sync_module [OF sub this]
  show "StatementLocalsDictSync_computeStatement env self w =
          Inr ((VNone, Some ''new_statements'',
                Some ''Removed sync back to locals without locals.''), w1)" .
next
  fix scope
  assume a: "\<not> isCompiledPythonModule env w1 (getParentVariableProvider env w1 self)"
    "getattr (VRef self) ''locals_scope'' w1 = Inr scope"
    "\<not> truthy (onLocalsUsage env (tc w1) scope)"
  from sync_no_records [OF sub a]
  show "\<exists>w2. StatementLocalsDictSync_computeStatement env self w =
                Inr ((VNone, Some ''new_statements'',
                      Some ''Removed sync back to locals without locals.''), w2)
            \<and> tc w2 = tc w1
            \<and> getattr (VRef self) ''previous_traces'' w2
                = Inr (onLocalsUsage env (tc w1) scope)" .
next
  fix scope
  assume a: "\<not> isCompiledPythonModule env w1 (getParentVariableProvider env w1 self)"
    "getattr (VRef self) ''locals_scope'' w1 = Inr scope"
    "truthy (onLocalsUsage env (tc w1) scope)"
  from sync_records [OF sub a]
  show "\<exists>w4. StatementLocalsDictSync_computeStatement env self w =
                Inr ((VRef self, None, None), w4)
            \<and> tc w4 = (tc w1)\<lparr>knowledge := []\<rparr>
            \<and> getattr (VRef self) ''previous_traces'' w4
                = Inr (onLocalsUsage env (tc w1) scope)
            \<and> getattr (VRef self) ''variable_traces'' w4
                = Inr (onLocalsUsage env ((tc w1)\<lparr>knowledge := []\<rparr>) scope)" .
qed

lemmas locals_sync_eval = getattr_def lookup_def locals_sync_world_def example_collaborators_def
  kind_of_def known_fact_def

theorem StatementLocalsDictSync_computeStatement_cases_witness:
  "StatementLocalsDictSync_computeStatement example_collaborators 2 locals_sync_world =
     Inr ((VNone, Some ''new_statements'',
           Some ''Removed sync back to locals without locals.''), locals_sync_world)
   \<and> (\<exists>w2. StatementLocalsDictSync_computeStatement example_collaborators 3 locals_sync_world =
              Inr ((VNone, Some ''new_statements'',
                    Some ''Removed sync back to locals without locals.''), w2)
            \<and> knowledge (tc w2) = [(VStr ''x'', VStr ''int'')])
   \<and> (\<exists>w4. StatementLocalsDictSync_computeStatement example_collaborators 4 locals_sync_world =
              Inr ((VRef 4, None, None), w4)
            \<and> knowledge (tc w4) = []
            \<and> getattr (VRef 4) ''previous_traces'' w4
                = Inr (VList [VList [VStr ''x'', VStr ''int''], VList [VStr ''y'', VNone]])
            \<and> getattr (VRef 4) ''variable_traces'' w4
                = Inr (VList [VList [VStr ''x'', VNone], VList [VStr ''y'', VNone]]))"
proof (intro conjI)
  let ?W = locals_sync_world
  let ?ex = example_collaborators
  have sub: "\<And>self. computeStatementSubExpressions ?ex self ?W
                = Inr ((VRef self, None, None), ?W)"
    by (simp add: example_collaborators_def)
  show "StatementLocalsDictSync_computeStatement ?ex 2 ?W =
     Inr ((VNone, Some ''new_statements'',
           Some ''Removed sync back to locals without locals.''), ?W)"
  proof -
    have "isCompiledPythonModule ?ex ?W (getParentVariableProvider ?ex ?W 2)"
      by (simp add: locals_sync_eval)
    with StatementLocalsDictSync_computeStatement_cases [OF sub, of 2] show ?thesis by blast
  qed
  show "\<exists>w2. StatementLocalsDictSync_computeStatement ?ex 3 ?W =
              Inr ((VNone, Some ''new_statements'',
                    Some ''Removed sync back to locals without locals.''), w2)
            \<and> knowledge (tc w2) = [(VStr ''x'', VStr ''int'')]"
  proof -
    have h: "\<not> isCompiledPythonModule ?ex ?W (getParentVariableProvider ?ex ?W 3)"
      "getattr (VRef 3) ''locals_scope'' ?W = Inr (VStr ''locals_f'')"
      "\<not> truthy (onLocalsUsage ?ex (tc ?W) (VStr ''locals_f''))"
      by (simp_all add: locals_sync_eval)
    with StatementLocalsDictSync_computeStatement_cases [OF sub, of 3] obtain w2 where
      "StatementLocalsDictSync_computeStatement ?ex 3 ?W =
         Inr ((VNone, Some ''new_statements'',
               Some ''Removed sync back to locals without locals.''), w2)"
      "tc w2 = tc ?W"
      by blast
    moreover have "knowledge (tc ?W) = [(VStr ''x'', VStr ''int'')]"
      by (simp add: locals_sync_world_def)
    ultimately show ?thesis by auto
  qed
  show "\<exists>w4. StatementLocalsDictSync_computeStatement ?ex 4 ?W =
              Inr ((VRef 4, None, None), w4)
            \<and> knowledge (tc w4) = []
            \<and> getattr (VRef 4) ''previous_traces'' w4
                = Inr (VList [VList [VStr ''x'', VStr ''int''], VList [VStr ''y'', VNone]])
            \<and> getattr (VRef 4) ''variable_traces'' w4
                = Inr (VList [VList [VStr ''x'', VNone], VList [VStr ''y'', VNone]])"
  proof -
    have h: "\<not> isCompiledPythonModule ?ex ?W (getParentVariableProvider ?ex ?W 4)"
      "getattr (VRef 4) ''locals_scope'' ?W = Inr (VStr ''locals_g'')"
      "truthy (onLocalsUsage ?ex (tc ?W) (VStr ''locals_g''))"
      by (simp_all add: locals_sync_eval)
    with StatementLocalsDictSync_computeStatement_cases [OF sub, of 4] obtain w4 where r:
      "StatementLocalsDictSync_computeStatement ?ex 4 ?W = Inr ((VRef 4, None, None), w4)"
      "tc w4 = (tc ?W)\<lparr>knowledge := []\<rparr>"
      "getattr (VRef 4) ''previous_traces'' w4
         = Inr (onLocalsUsage ?ex (tc ?W) (VStr ''locals_g''))"
      "getattr (VRef 4) ''variable_traces'' w4
         = Inr (onLocalsUsage ?ex ((tc ?W)\<lparr>knowledge := []\<rparr>) (VStr ''locals_g''))"
      by blast
    have "onLocalsUsage ?ex (tc ?W) (VStr ''locals_g'')
        = VList [VList [VStr ''x'', VStr ''int''], VList [VStr ''y'', VNone]]"
      by (simp add: locals_sync_eval)
    moreover have "onLocalsUsage ?ex ((tc ?W)\<lparr>knowledge := []\<rparr>) (VStr ''locals_g'')
        = VList [VList [VStr ''x'', VNone], VList [VStr ''y'', VNone]]"
      by (simp add: locals_sync_eval)
    moreover from r(2) have "knowledge (tc w4) = []" by simp
    ultimately show ?thesis using r by auto
  qed
qed

text \<open>
  C10: for every exception class, \<^verbatim>\<open>StatementLocalsDictSync.mayRaiseException\<close> returns
  \<^verbatim>\<open>False\<close>.  It is a static method: it sees neither the node nor its \<^verbatim>\<open>locals_arg\<close>
  child.
\<close>

theorem StatementLocalsDictSync_mayRaiseException_False:
  "StatementLocalsDictSync_mayRaiseException exception_type = False"
  by (simp add: StatementLocalsDictSync_mayRaiseException_def)

end
